theory Spec2Isabelle
  imports Complex_Main "HOL-Library.Word" "HOL-Library.AList" "HOL-Library.Monad_Syntax"
    "HOL-Library.Log_Nat"
begin

section \<open>Data model\<close>

text \<open>
  The experimental voxel grid of PCL: \<^verbatim>\<open>GridFilterBase\<close> (grid_filter_base.h) and
  \<^verbatim>\<open>VoxelStructT\<close> (two revisions of voxel_grid.h).

  Conventions of the embedding.
  \<^item> \<^verbatim>\<open>float\<close> and \<^verbatim>\<open>double\<close> values are real numbers; infinities and NaN are not
    represented. Products, quotients, sums and differences of coordinates are taken
    exactly. The float operations on whole numbers, \<^verbatim>\<open>std::floor(..) + 1\<close> and
    \<^verbatim>\<open>std::floor(..) - min_b\<close>, whose result is converted to \<^verbatim>\<open>std::size_t\<close>, are rounded
    to single precision (\<open>round_float\<close>): exact up to \<open>2 ^ 24\<close>, and to the nearest value
    with a significand of 24 bits above.
  \<^item> \<^verbatim>\<open>std::size_t\<close> is a 64-bit word and \<^verbatim>\<open>int\<close> a 32-bit word; their arithmetic wraps
    around. Counters that are bounded by the number of points of a cloud
    (\<^verbatim>\<open>num_pt\<close>, \<^verbatim>\<open>num_voxels_\<close>, \<^verbatim>\<open>min_points_per_voxel_\<close>) are natural numbers.
  \<^item> A function whose C++ execution can leave the language's defined behaviour returns an
    \<open>option\<close>: \<open>None\<close> stands for a conversion of a floating value that the integer
    type cannot represent, for an integer division by zero, for an access outside a
    \<^verbatim>\<open>std::vector\<close>, or for a float division by a zero count (NaN).
  \<^item> Data members are written without their trailing underscore (\<open>leaf_size\<close> for
    \<^verbatim>\<open>leaf_size_\<close>); the parameters \<^verbatim>\<open>inverse_leaf_size\<close>, \<^verbatim>\<open>min_b\<close>, \<^verbatim>\<open>divb_mul\<close> of
    the \<^verbatim>\<open>GridFilterBase\<close> functions are \<open>ils\<close>, \<open>mb\<close>, \<open>dm\<close>.
  \<^item> \<^verbatim>\<open>std::unordered_map\<close> is an association list with distinct keys; a new key is
    appended, and iteration follows the list.
\<close>

type_synonym size_t = "64 word"
type_synonym int32 = "32 word"

text \<open>\<^verbatim>\<open>Eigen::Vector4f\<close>, \<^verbatim>\<open>Eigen::Array4f\<close>, \<^verbatim>\<open>Eigen::Vector4i\<close>.\<close>

datatype 'a vec4 = Vec4 (c0: 'a) (c1: 'a) (c2: 'a) (c3: 'a)

definition vec4_zip :: "('a \<Rightarrow> 'b \<Rightarrow> 'c) \<Rightarrow> 'a vec4 \<Rightarrow> 'b vec4 \<Rightarrow> 'c vec4" where
  "vec4_zip f a b = Vec4 (f (c0 a) (c0 b)) (f (c1 a) (c1 b)) (f (c2 a) (c2 b)) (f (c3 a) (c3 b))"

definition vec4_all :: "('a \<Rightarrow> 'b \<Rightarrow> bool) \<Rightarrow> 'a vec4 \<Rightarrow> 'b vec4 \<Rightarrow> bool" where
  "vec4_all P a b = (P (c0 a) (c0 b) \<and> P (c1 a) (c1 b) \<and> P (c2 a) (c2 b) \<and> P (c3 a) (c3 b))"

text \<open>\<^verbatim>\<open>a.dot(b)\<close> on \<^verbatim>\<open>Vector4i\<close>: 32-bit products and sums.\<close>

definition dot4 :: "int32 vec4 \<Rightarrow> int32 vec4 \<Rightarrow> int32" where
  "dot4 a b = c0 a * c0 b + c1 a * c1 b + c2 a * c2 b + c3 a * c3 b"

subsection \<open>Conversions from floating values to integers\<close>

text \<open>
  A floating value converted to an integer type is truncated towards zero; the conversion
  is defined only if the truncated value is representable in the target type.
\<close>

definition trunc :: "real \<Rightarrow> int" where
  "trunc v = (if v < 0 then \<lceil>v\<rceil> else \<lfloor>v\<rfloor>)"

definition size_t_of_float :: "real \<Rightarrow> size_t option" where
  "size_t_of_float v = (if - 1 < v \<and> v < 2 ^ 64 then Some (word_of_int (trunc v)) else None)"

definition int_of_float :: "real \<Rightarrow> int32 option" where
  "int_of_float v =
    (if - (2 ^ 31) - 1 < v \<and> v < 2 ^ 31 then Some (word_of_int (trunc v)) else None)"

text \<open>
  The single-precision value of a whole number: a whole number of magnitude up to \<open>2 ^ 24\<close>
  is a \<^verbatim>\<open>float\<close>; a larger one is rounded to the nearest multiple of the spacing of the
  \<^verbatim>\<open>float\<close> values of its magnitude (\<open>float_ulp\<close>, leaving a significand of 24 bits), a tie
  going to the multiple with the even significand. This is the result of a \<^verbatim>\<open>float\<close>
  addition or subtraction of whole numbers, and of the conversion of an \<^verbatim>\<open>int\<close> to
  \<^verbatim>\<open>float\<close>. The largest finite \<^verbatim>\<open>float\<close> lies far above \<open>2 ^ 64\<close>, from where on the
  conversions to integer types are undefined, so that overflow to infinity plays no role.
\<close>

definition round_to_even :: "int \<Rightarrow> int \<Rightarrow> int" where
  "round_to_even u a =
    (let q = a div u; r = a mod u
     in (if 2 * r < u \<or> (2 * r = u \<and> even q) then q else q + 1) * u)"

definition float_ulp :: "int \<Rightarrow> int" where
  "float_ulp a = 2 ^ nat (bitlen a - 24)"

definition round_float :: "int \<Rightarrow> int" where
  "round_float n =
    (if \<bar>n\<bar> \<le> 2 ^ 24 then n else sgn n * round_to_even (float_ulp \<bar>n\<bar>) \<bar>n\<bar>)"

text \<open>\<^verbatim>\<open>v.floor().cast<int>()\<close> on an \<^verbatim>\<open>Array4f\<close>.\<close>

definition floor_cast_int :: "real vec4 \<Rightarrow> int32 vec4 option" where
  "floor_cast_int v = do {
     a \<leftarrow> int_of_float (real_of_int \<lfloor>c0 v\<rfloor>);
     b \<leftarrow> int_of_float (real_of_int \<lfloor>c1 v\<rfloor>);
     c \<leftarrow> int_of_float (real_of_int \<lfloor>c2 v\<rfloor>);
     d \<leftarrow> int_of_float (real_of_int \<lfloor>c3 v\<rfloor>);
     Some (Vec4 a b c d)
   }"

text \<open>\<^verbatim>\<open>std::numeric_limits<std::size_t>::max()\<close>.\<close>

definition max_size :: size_t where
  "max_size = - 1"

subsection \<open>Points\<close>

text \<open>
  A point has the coordinates \<^verbatim>\<open>x\<close>, \<^verbatim>\<open>y\<close>, \<^verbatim>\<open>z\<close> (here \<open>px\<close>, \<open>py\<close>, \<open>pz\<close>), the
  fourth float of the coordinate block (\<open>pw\<close>, read by \<^verbatim>\<open>getVector4fMap\<close>), and the other
  scalar fields of its type in declaration order (\<open>aux\<close>).
\<close>

record PointT =
  px :: real
  py :: real
  pz :: real
  pw :: real
  aux :: "real list"

definition getVector4fMap :: "PointT \<Rightarrow> real vec4" where
  "getVector4fMap pt = Vec4 (px pt) (py pt) (pz pt) (pw pt)"

text \<open>The scalar fields of a point in declaration order: x, y, z, then the others.\<close>

definition all_fields :: "PointT \<Rightarrow> real list" where
  "all_fields pt = [px pt, py pt, pz pt] @ aux pt"

text \<open>
  \<^verbatim>\<open>memcpy(&distance_value, pt_data + filter_fields_[filter_field_idx_].offset, sizeof(float))\<close>:
  the value of the field with the given index; an index outside the field table reads
  outside \<^verbatim>\<open>filter_fields_\<close>.
\<close>

definition field_at :: "PointT \<Rightarrow> int \<Rightarrow> real option" where
  "field_at pt i =
    (if 0 \<le> i \<and> nat i < length (all_fields pt) then Some (all_fields pt ! nat i) else None)"

text \<open>
  Modelled from the spec: \<^verbatim>\<open>pcl::getFieldIndex\<close> (point-cloud field introspection, not part
  of the available sources) looks a field up by name and yields its index in the field
  table, or -1 when the point type has no such field.
\<close>

fun getFieldIndex :: "string \<Rightarrow> string list \<Rightarrow> int" where
  "getFieldIndex name [] = - 1"
| "getFieldIndex name (f # fs) =
    (if f = name then 0
     else (let i = getFieldIndex name fs in if i = - 1 then - 1 else i + 1))"

text \<open>
  The default-constructed point \<^verbatim>\<open>PointT centroid;\<close>. The point types are not part of the
  available sources; the model's default has zero coordinates, the fourth float 1 and no
  further fields.
\<close>

definition PointT_default :: PointT where
  "PointT_default = \<lparr>px = 0, py = 0, pz = 0, pw = 1, aux = []\<rparr>"

subsection \<open>The full-field accumulator\<close>

text \<open>
  Modelled from the spec: \<^verbatim>\<open>CentroidPoint<PointT>\<close> (pcl/common/centroid.h, not part of the
  available sources). In full-field mode every scalar field of every point assigned to the
  cell is averaged component-wise: running sums are accumulated per field across insertions
  and divided by the occupancy at emission time.
\<close>

record CentroidPoint =
  field_sums :: "real list"
  num_points :: nat

definition CentroidPoint_init :: CentroidPoint where
  "CentroidPoint_init = \<lparr>field_sums = [], num_points = 0\<rparr>"

definition CentroidPoint_add :: "CentroidPoint \<Rightarrow> PointT \<Rightarrow> CentroidPoint" where
  "CentroidPoint_add c pt =
    \<lparr>field_sums = (if num_points c = 0 then all_fields pt
                    else map2 (+) (field_sums c) (all_fields pt)),
     num_points = num_points c + 1\<rparr>"

definition point_of_fields :: "real list \<Rightarrow> PointT" where
  "point_of_fields fs =
    \<lparr>px = fs ! 0, py = fs ! 1, pz = fs ! 2, pw = 1, aux = drop 3 fs\<rparr>"

definition CentroidPoint_get :: "CentroidPoint \<Rightarrow> PointT option" where
  "CentroidPoint_get c =
    (if num_points c = 0 \<or> length (field_sums c) < 3 then None
     else Some (point_of_fields (map (\<lambda>s. s / real (num_points c)) (field_sums c))))"

subsection \<open>GridFilterBase (grid\_filter\_base.h)\<close>

text \<open>
  The settings a grid structure reads from the filter object: the members of
  \<^verbatim>\<open>GridFilterBase\<close> and the getters of its base classes that \<^verbatim>\<open>VoxelStructT\<close> calls
  through \<^verbatim>\<open>getDerived()\<close>.
\<close>

record GridFilterBase =
  downsample_all_data :: bool
  min_points_per_voxel :: nat
  getSaveLeafLayout :: bool
  getFilterFieldName :: string
  getFilterLimits :: "real \<times> real"
  getFilterLimitsNegative :: bool

definition GridFilterBase_init :: GridFilterBase where
  "GridFilterBase_init =
    \<lparr>downsample_all_data = True, min_points_per_voxel = 0, getSaveLeafLayout = False,
     getFilterFieldName = [], getFilterLimits = (0, 0), getFilterLimitsNegative = False\<rparr>"

definition setDownsampleAllData :: "bool \<Rightarrow> GridFilterBase \<Rightarrow> GridFilterBase" where
  "setDownsampleAllData downsample gf = gf\<lparr>downsample_all_data := downsample\<rparr>"

definition getDownsampleAllData :: "GridFilterBase \<Rightarrow> bool" where
  "getDownsampleAllData gf = downsample_all_data gf"

definition setMinimumPointsNumberPerVoxel :: "nat \<Rightarrow> GridFilterBase \<Rightarrow> GridFilterBase" where
  "setMinimumPointsNumberPerVoxel n gf = gf\<lparr>min_points_per_voxel := n\<rparr>"

definition getMinimumPointsNumberPerVoxel :: "GridFilterBase \<Rightarrow> nat" where
  "getMinimumPointsNumberPerVoxel gf = min_points_per_voxel gf"

text \<open>
  \<^verbatim>\<open>GridFilterBase::hashPoint\<close>. In \<^verbatim>\<open>std::floor(pt.x * inverse_leaf_size[0]) - min_b[0]\<close>
  the \<^verbatim>\<open>int\<close> is converted to \<^verbatim>\<open>float\<close> and the subtraction is a \<^verbatim>\<open>float\<close> subtraction,
  whose result is converted to \<^verbatim>\<open>std::size_t\<close>; in \<^verbatim>\<open>ijk0 * divb_mul[0]\<close> the \<^verbatim>\<open>int\<close>
  multiplier is converted to \<^verbatim>\<open>std::size_t\<close> (sign extension) and the arithmetic is
  64-bit.
\<close>

definition GridFilterBase_hashPoint ::
  "PointT \<Rightarrow> real vec4 \<Rightarrow> int32 vec4 \<Rightarrow> int32 vec4 \<Rightarrow> size_t option" where
  "GridFilterBase_hashPoint pt ils mb dm = do {
     ijk0 \<leftarrow> size_t_of_float
       (real_of_int (round_float (\<lfloor>px pt * c0 ils\<rfloor> - round_float (sint (c0 mb)))));
     ijk1 \<leftarrow> size_t_of_float
       (real_of_int (round_float (\<lfloor>py pt * c1 ils\<rfloor> - round_float (sint (c1 mb)))));
     ijk2 \<leftarrow> size_t_of_float
       (real_of_int (round_float (\<lfloor>pz pt * c2 ils\<rfloor> - round_float (sint (c2 mb)))));
     Some (ijk0 * scast (c0 dm) + ijk1 * scast (c1 dm) + ijk2 * scast (c2 dm))
   }"

text \<open>
  \<^verbatim>\<open>GridFilterBase::checkHashRange\<close>: 0 reports that the hash range overflows.
  \<^verbatim>\<open>std::floor(..) + 1\<close> is a \<^verbatim>\<open>float\<close> addition. The disjunction is evaluated left to
  right, so \<^verbatim>\<open>dx * dy\<close> and \<^verbatim>\<open>max_size / dz\<close> are computed only when the first test
  fails.
\<close>

definition checkHashRange :: "real vec4 \<Rightarrow> real vec4 \<Rightarrow> real vec4 \<Rightarrow> size_t option" where
  "checkHashRange min_p max_p ils = do {
     dx \<leftarrow> size_t_of_float
       (real_of_int (round_float (\<lfloor>(c0 max_p - c0 min_p) * c0 ils\<rfloor> + 1)));
     dy \<leftarrow> size_t_of_float
       (real_of_int (round_float (\<lfloor>(c1 max_p - c1 min_p) * c1 ils\<rfloor> + 1)));
     dz \<leftarrow> size_t_of_float
       (real_of_int (round_float (\<lfloor>(c2 max_p - c2 min_p) * c2 ils\<rfloor> + 1)));
     if dx = 0 then None
     else if dy > max_size div dx then Some 0
     else if dz = 0 then None
     else if dx * dy > max_size div dz then Some 0
     else Some (dx * dy * dz)
   }"

subsection \<open>VoxelStructT (voxel\_grid.h)\<close>

record Voxel =
  centroid :: CentroidPoint
  coord_centroid :: "real vec4"
  num_pt :: nat

definition Voxel_init :: Voxel where
  "Voxel_init = \<lparr>centroid = CentroidPoint_init, coord_centroid = Vec4 0 0 0 0, num_pt = 0\<rparr>"

record VoxelStructT =
  filter_name :: string
  leaf_size :: "real vec4"
  inverse_leaf_size :: "real vec4"
  leaf_layout :: "int32 list"
  min_b :: "int32 vec4"
  max_b :: "int32 vec4"
  div_b :: "int32 vec4"
  divb_mul :: "int32 vec4"
  grid :: "(size_t \<times> Voxel) list"
  num_voxels :: nat
  filter_field_idx :: int
  filter_limit_min :: real
  filter_limit_max :: real
  filter_field_name :: string

text \<open>The constructor. Members it leaves uninitialised are given fixed values here.\<close>

definition VoxelStructT_init :: VoxelStructT where
  "VoxelStructT_init =
    \<lparr>filter_name = ''VoxelGrid'',
     leaf_size = Vec4 0 0 0 0,
     inverse_leaf_size = Vec4 0 0 0 0,
     leaf_layout = [],
     min_b = Vec4 0 0 0 0,
     max_b = Vec4 0 0 0 0,
     div_b = Vec4 0 0 0 0,
     divb_mul = Vec4 0 0 0 0,
     grid = [],
     num_voxels = 0,
     filter_field_idx = 0,
     filter_limit_min = 0,
     filter_limit_max = 0,
     filter_field_name = []\<rparr>"

text \<open>
  \<^verbatim>\<open>inverse_leaf_size_ = 1 / leaf_size_.array()\<close>. For a zero component the C++ value is an
  infinity, which the reals do not have; the model's value there is HOL's \<open>1 / 0 = 0\<close>, and
  every statement that reads the inverse leaf size says what it assumes of it.
\<close>

definition array_inverse :: "real vec4 \<Rightarrow> real vec4" where
  "array_inverse v = Vec4 (1 / c0 v) (1 / c1 v) (1 / c2 v) (1 / c3 v)"

text \<open>
  \<^verbatim>\<open>if (leaf_size_[3] == 0) leaf_size_[3] = 1;\<close> (under the comment "Avoid division
  errors").
\<close>

definition avoid_division_errors :: "real vec4 \<Rightarrow> real vec4" where
  "avoid_division_errors ls = (if c3 ls = 0 then Vec4 (c0 ls) (c1 ls) (c2 ls) 1 else ls)"

text \<open>\<^verbatim>\<open>setLeafSize(const Eigen::Vector4f& leaf_size)\<close>\<close>

definition setLeafSize4 :: "real vec4 \<Rightarrow> VoxelStructT \<Rightarrow> VoxelStructT" where
  "setLeafSize4 v st =
    st\<lparr>leaf_size := avoid_division_errors v,
       inverse_leaf_size := array_inverse (avoid_division_errors v)\<rparr>"

text \<open>\<^verbatim>\<open>setLeafSize(const float lx, const float ly, const float lz)\<close>\<close>

definition setLeafSize :: "real \<Rightarrow> real \<Rightarrow> real \<Rightarrow> VoxelStructT \<Rightarrow> VoxelStructT" where
  "setLeafSize lx ly lz st =
    st\<lparr>leaf_size := avoid_division_errors (Vec4 lx ly lz (c3 (leaf_size st))),
       inverse_leaf_size :=
         array_inverse (avoid_division_errors (Vec4 lx ly lz (c3 (leaf_size st))))\<rparr>"

text \<open>
  \<^verbatim>\<open>checkIfOverflow\<close>: the inner \<open>None\<close> is \<^verbatim>\<open>boost::none\<close>, the report that the number
  of voxels overflows. \<^verbatim>\<open>std::floor(..) + 1\<close> is a \<^verbatim>\<open>float\<close> addition.
\<close>

definition checkIfOverflow :: "VoxelStructT \<Rightarrow> real vec4 \<Rightarrow> real vec4 \<Rightarrow> size_t option option" where
  "checkIfOverflow st min_p max_p = do {
     dx \<leftarrow> size_t_of_float
       (real_of_int (round_float (\<lfloor>(c0 max_p - c0 min_p) * c0 (inverse_leaf_size st)\<rfloor> + 1)));
     dy \<leftarrow> size_t_of_float
       (real_of_int (round_float (\<lfloor>(c1 max_p - c1 min_p) * c1 (inverse_leaf_size st)\<rfloor> + 1)));
     dz \<leftarrow> size_t_of_float
       (real_of_int (round_float (\<lfloor>(c2 max_p - c2 min_p) * c2 (inverse_leaf_size st)\<rfloor> + 1)));
     if dx = 0 then None
     else if dy > max_size div dx then Some None
     else if dz = 0 then None
     else if dx * dy > max_size div dz then Some None
     else Some (Some (dx * dy * dz))
   }"

text \<open>
  \<^verbatim>\<open>VoxelStructT::hashPoint\<close>, with the \<^verbatim>\<open>float\<close> subtraction of \<^verbatim>\<open>min_b_\<close> as in
  \<^verbatim>\<open>GridFilterBase::hashPoint\<close>.
\<close>

definition hashPoint :: "VoxelStructT \<Rightarrow> PointT \<Rightarrow> size_t option" where
  "hashPoint st pt = do {
     ijk0 \<leftarrow> size_t_of_float
       (real_of_int (round_float
         (\<lfloor>px pt * c0 (inverse_leaf_size st)\<rfloor> - round_float (sint (c0 (min_b st))))));
     ijk1 \<leftarrow> size_t_of_float
       (real_of_int (round_float
         (\<lfloor>py pt * c1 (inverse_leaf_size st)\<rfloor> - round_float (sint (c1 (min_b st))))));
     ijk2 \<leftarrow> size_t_of_float
       (real_of_int (round_float
         (\<lfloor>pz pt * c2 (inverse_leaf_size st)\<rfloor> - round_float (sint (c2 (min_b st))))));
     Some (ijk0 * scast (c0 (divb_mul st)) + ijk1 * scast (c1 (divb_mul st))
           + ijk2 * scast (c2 (divb_mul st)))
   }"

text \<open>
  What \<^verbatim>\<open>setUp\<close> obtains from collaborators that are not part of the available sources:
  the names of the scalar fields of the point type in declaration order (the field table
  that \<^verbatim>\<open>getFieldIndex\<close> fills), the extrema \<open>(min_p, max_p)\<close> that \<^verbatim>\<open>getMinMax3D\<close> returns
  for the input cloud and the configured field limits, and the largest leaf layout that
  \<^verbatim>\<open>std::vector::resize\<close> grants (above it, it throws \<^verbatim>\<open>std::bad_alloc\<close> or
  \<^verbatim>\<open>std::length_error\<close>).
\<close>

record Collaborators =
  point_fields :: "string list"
  getMinMax3D :: "real vec4 \<times> real vec4"
  layout_capacity :: nat

datatype setUp_result = Returned bool | Thrown

definition warn_invalid_field :: "VoxelStructT \<Rightarrow> string" where
  "warn_invalid_field st =
    ''[pcl::'' @ filter_name st @ ''::applyFilter] Invalid filter field name. Index is -1.''"

definition warn_overflow :: "string \<Rightarrow> string" where
  "warn_overflow name =
    ''[pcl::'' @ name @ ''::applyFilter] Leaf size is too small for the input dataset. ''
    @ ''Integer indices would overflow.''"

text \<open>
  \<^verbatim>\<open>std::fill(leaf_layout_.begin(), leaf_layout_.begin() + reset_size, -1)\<close> followed by
  \<^verbatim>\<open>leaf_layout_.resize(new_layout_size, -1)\<close>.
\<close>

definition fill_leaf_layout :: "nat \<Rightarrow> int32 list \<Rightarrow> int32 list" where
  "fill_leaf_layout new_layout_size layout =
    (let reset_size = min new_layout_size (length layout)
     in replicate reset_size (- 1) @ drop reset_size layout)"

definition resize_leaf_layout :: "nat \<Rightarrow> int32 list \<Rightarrow> int32 list" where
  "resize_leaf_layout new_layout_size layout =
    take new_layout_size layout @ replicate (new_layout_size - length layout) (- 1)"

text \<open>
  \<^verbatim>\<open>VoxelStructT::setUp\<close>. It returns the result, the warnings it prints and the new state.
  \<^verbatim>\<open>grid_.reserve\<close> changes only the capacity of the map and is left out. The layout
  size \<^verbatim>\<open>div_b_[0] * div_b_[1] * div_b_[2]\<close> is a product of \<^verbatim>\<open>int\<close> converted to
  \<^verbatim>\<open>std::size_t\<close>.
\<close>

definition setUp ::
  "GridFilterBase \<Rightarrow> Collaborators \<Rightarrow> VoxelStructT
    \<Rightarrow> (setUp_result \<times> string list \<times> VoxelStructT) option" where
  "setUp gf env st =
    (let st1 = st\<lparr>filter_field_name := getFilterFieldName gf,
                  filter_limit_min := fst (getFilterLimits gf),
                  filter_limit_max := snd (getFilterLimits gf)\<rparr>;
         min_p = fst (getMinMax3D env);
         max_p = snd (getMinMax3D env);
         idx = getFieldIndex (filter_field_name st1) (point_fields env);
         st2 = (if filter_field_name st1 \<noteq> [] then st1\<lparr>filter_field_idx := idx\<rparr> else st1);
         w = (if filter_field_name st1 \<noteq> [] \<and> idx = - 1 then [warn_invalid_field st1] else [])
     in do {
       mnb \<leftarrow> floor_cast_int (vec4_zip (*) min_p (inverse_leaf_size st2));
       mxb \<leftarrow> floor_cast_int (vec4_zip (*) max_p (inverse_leaf_size st2));
       let db = vec4_zip (\<lambda>a b. a - b + 1) mxb mnb;
       let st3 = st2\<lparr>min_b := mnb, max_b := mxb, div_b := db,
                     divb_mul := Vec4 1 (c0 db) (c0 db * c1 db) 0,
                     num_voxels := 0\<rparr>;
       max_num_voxels \<leftarrow> checkIfOverflow st3 min_p max_p;
       (case max_num_voxels of
          None \<Rightarrow> Some (Returned False, w @ [warn_overflow (filter_name st3)], st3)
        | Some n \<Rightarrow>
            if getSaveLeafLayout gf then
              (let new_layout_size = unat (scast (c0 db * c1 db * c2 db) :: size_t);
                   filled = fill_leaf_layout new_layout_size (leaf_layout st3)
               in if new_layout_size > layout_capacity env
                  then Some (Thrown, w, st3\<lparr>leaf_layout := filled\<rparr>)
                  else Some (Returned True, w,
                         st3\<lparr>leaf_layout := resize_leaf_layout new_layout_size filled\<rparr>))
            else Some (Returned True, w, st3))
     })"

text \<open>\<^verbatim>\<open>grid_[h]\<close>: the voxel of the key, value-initialised when the key is new.\<close>

definition grid_at :: "(size_t \<times> Voxel) list \<Rightarrow> size_t \<Rightarrow> Voxel" where
  "grid_at g h = (case map_of g h of None \<Rightarrow> Voxel_init | Some v \<Rightarrow> v)"

text \<open>
  The first block of \<^verbatim>\<open>addPointToGrid\<close>: whether the field filter makes the function
  return before the point is hashed.
\<close>

definition field_filter_skips :: "GridFilterBase \<Rightarrow> VoxelStructT \<Rightarrow> PointT \<Rightarrow> bool option" where
  "field_filter_skips gf st pt =
    (if filter_field_name st \<noteq> [] then do {
       distance_value \<leftarrow> field_at pt (filter_field_idx st);
       Some (if getFilterLimitsNegative gf
             then distance_value < filter_limit_max st \<and> distance_value > filter_limit_min st
             else distance_value > filter_limit_max st \<or> distance_value < filter_limit_min st)
     }
     else Some False)"

text \<open>\<^verbatim>\<open>VoxelStructT::addPointToGrid\<close>\<close>

definition addPointToGrid :: "GridFilterBase \<Rightarrow> PointT \<Rightarrow> VoxelStructT \<Rightarrow> VoxelStructT option" where
  "addPointToGrid gf pt st = do {
     skipped \<leftarrow> field_filter_skips gf st pt;
     if skipped then Some st
     else do {
       h \<leftarrow> hashPoint st pt;
       let voxel = grid_at (grid st) h;
       let voxel1 = (if \<not> getDownsampleAllData gf
                     then voxel\<lparr>coord_centroid :=
                            vec4_zip (+) (coord_centroid voxel) (getVector4fMap pt)\<rparr>
                     else voxel\<lparr>centroid := CentroidPoint_add (centroid voxel) pt\<rparr>);
       let voxel2 = voxel1\<lparr>num_pt := num_pt voxel1 + 1\<rparr>;
       Some (st\<lparr>grid := AList.update h voxel2 (grid st)\<rparr>)
     }
   }"

text \<open>
  \<^verbatim>\<open>VoxelStructT::filterGrid\<close>, applied to the grid entry \<open>grid_it\<close> (key and voxel) that the
  iterator points to. \<^verbatim>\<open>leaf_layout_[grid_it->first] = num_voxels_++\<close> stores a
  \<^verbatim>\<open>std::size_t\<close> into an \<^verbatim>\<open>int\<close>. In geometry-only mode the voxel's running sum is
  divided in place.
\<close>

definition filterGrid ::
  "GridFilterBase \<Rightarrow> size_t \<times> Voxel \<Rightarrow> VoxelStructT \<Rightarrow> (PointT option \<times> VoxelStructT) option" where
  "filterGrid gf grid_it st =
    (let voxel = snd grid_it in
     if num_pt voxel \<ge> getMinimumPointsNumberPerVoxel gf then do {
       st1 \<leftarrow>
         (if getSaveLeafLayout gf then
            (if unat (fst grid_it) < length (leaf_layout st)
             then Some (st\<lparr>leaf_layout :=
                             (leaf_layout st)[unat (fst grid_it) := word_of_nat (num_voxels st)],
                           num_voxels := num_voxels st + 1\<rparr>)
             else None)
          else Some st);
       if \<not> getDownsampleAllData gf then
         (if num_pt voxel = 0 then None
          else
            (let n = real (num_pt voxel);
                 cc = coord_centroid voxel;
                 cc1 = Vec4 (c0 cc / n) (c1 cc / n) (c2 cc / n) (c3 cc / n);
                 voxel1 = voxel\<lparr>coord_centroid := cc1\<rparr>
             in Some (Some (PointT_default\<lparr>px := c0 cc1, py := c1 cc1, pz := c2 cc1, pw := c3 cc1\<rparr>),
                      st1\<lparr>grid := AList.update (fst grid_it) voxel1 (grid st1)\<rparr>)))
       else do {
         p \<leftarrow> CentroidPoint_get (centroid voxel);
         Some (Some p, st1)
       }
     }
     else Some (None, st))"

text \<open>
  The cell of a coordinate triple,
  \<^verbatim>\<open>Eigen::Vector4i ijk(static_cast<int>(std::floor(x * inverse_leaf_size_[0])), ..., 0)\<close>.
\<close>

definition cell_ijk :: "VoxelStructT \<Rightarrow> real \<Rightarrow> real \<Rightarrow> real \<Rightarrow> int32 vec4 option" where
  "cell_ijk st x y z = do {
     i \<leftarrow> int_of_float (real_of_int \<lfloor>x * c0 (inverse_leaf_size st)\<rfloor>);
     j \<leftarrow> int_of_float (real_of_int \<lfloor>y * c1 (inverse_leaf_size st)\<rfloor>);
     k \<leftarrow> int_of_float (real_of_int \<lfloor>z * c2 (inverse_leaf_size st)\<rfloor>);
     Some (Vec4 i j k 0)
   }"

text \<open>\<^verbatim>\<open>leaf_layout_[idx]\<close> for an \<^verbatim>\<open>int\<close> index, converted to the vector's size type.\<close>

definition leaf_layout_at :: "VoxelStructT \<Rightarrow> int32 \<Rightarrow> int32 option" where
  "leaf_layout_at st idx =
    (let i = unat (scast idx :: size_t)
     in if i < length (leaf_layout st) then Some (leaf_layout st ! i) else None)"

text \<open>
  \<^verbatim>\<open>getNeighborCentroidIndices(float x, float y, float z, const Eigen::MatrixXi&)\<close>: the
  columns of the matrix are the relative coordinates.
\<close>

definition getNeighborCentroidIndices ::
  "VoxelStructT \<Rightarrow> real \<Rightarrow> real \<Rightarrow> real \<Rightarrow> (int32 \<times> int32 \<times> int32) list \<Rightarrow> int32 list option" where
  "getNeighborCentroidIndices st x y z relative_coordinates = do {
     ijk \<leftarrow> cell_ijk st x y z;
     let diff2min = vec4_zip (-) (min_b st) ijk;
     let diff2max = vec4_zip (-) (max_b st) ijk;
     those (map (\<lambda>(rx, ry, rz).
       let displacement = Vec4 rx ry rz 0
       in if vec4_all word_sle diff2min displacement \<and> vec4_all word_sle displacement diff2max
          then leaf_layout_at st
                 (dot4 (vec4_zip (-) (vec4_zip (+) ijk displacement) (min_b st)) (divb_mul st))
          else Some (- 1)) relative_coordinates)
   }"

text \<open>
  \<^verbatim>\<open>getNeighborCentroidIndices(float x, float y, float z, const std::vector<Eigen::Vector3i>&)\<close>
\<close>

definition getNeighborCentroidIndices_vector ::
  "VoxelStructT \<Rightarrow> real \<Rightarrow> real \<Rightarrow> real \<Rightarrow> (int32 \<times> int32 \<times> int32) list \<Rightarrow> int32 list option" where
  "getNeighborCentroidIndices_vector st x y z relative_coordinates = do {
     ijk \<leftarrow> cell_ijk st x y z;
     those (map (\<lambda>(rx, ry, rz).
       leaf_layout_at st
         (dot4 (vec4_zip (-) (vec4_zip (+) ijk (Vec4 rx ry rz 0)) (min_b st)) (divb_mul st)))
       relative_coordinates)
   }"

text \<open>
  \<^verbatim>\<open>getNeighborCentroidIndices(const PointT& reference_point, const Eigen::MatrixXi&)\<close>
\<close>

definition getNeighborCentroidIndices_point ::
  "VoxelStructT \<Rightarrow> PointT \<Rightarrow> (int32 \<times> int32 \<times> int32) list \<Rightarrow> int32 list option" where
  "getNeighborCentroidIndices_point st reference_point relative_coordinates = do {
     ijk \<leftarrow> cell_ijk st (px reference_point) (py reference_point) (pz reference_point);
     let diff2min = vec4_zip (-) (min_b st) ijk;
     let diff2max = vec4_zip (-) (max_b st) ijk;
     those (map (\<lambda>(rx, ry, rz).
       let displacement = Vec4 rx ry rz 0
       in if vec4_all word_sle diff2min displacement \<and> vec4_all word_sle displacement diff2max
          then leaf_layout_at st
                 (dot4 (vec4_zip (-) (vec4_zip (+) ijk displacement) (min_b st)) (divb_mul st))
          else Some (- 1)) relative_coordinates)
   }"

subsection \<open>The filter call\<close>

text \<open>
  The iterations of the filter call over the points of the input and over the entries of the
  grid. In the model every point is finite, so every point of the input is binned.
\<close>

fun addPointsToGrid :: "GridFilterBase \<Rightarrow> PointT list \<Rightarrow> VoxelStructT \<Rightarrow> VoxelStructT option" where
  "addPointsToGrid gf [] st = Some st"
| "addPointsToGrid gf (pt # pts) st = do {
     st1 \<leftarrow> addPointToGrid gf pt st;
     addPointsToGrid gf pts st1
   }"

fun filterGridAll ::
  "GridFilterBase \<Rightarrow> (size_t \<times> Voxel) list \<Rightarrow> VoxelStructT \<Rightarrow> (PointT list \<times> VoxelStructT) option" where
  "filterGridAll gf [] st = Some ([], st)"
| "filterGridAll gf (grid_it # its) st = do {
     (res, st1) \<leftarrow> filterGrid gf grid_it st;
     (output, st2) \<leftarrow> filterGridAll gf its st1;
     Some ((case res of None \<Rightarrow> output | Some p \<Rightarrow> p # output), st2)
   }"

text \<open>
  Modelled from the spec: \<^verbatim>\<open>TransformFilter::applyFilter\<close> (transform_filter.h, the
  orchestrator of the three phases, not part of the available sources). An empty input
  yields an empty output without entering the phases; otherwise \<^verbatim>\<open>setUp\<close> runs, every
  point of the input is offered to \<^verbatim>\<open>addPointToGrid\<close>, and every occupied cell is offered to
  \<^verbatim>\<open>filterGrid\<close>, whose points form the output. When \<^verbatim>\<open>setUp\<close> returns failure the
  orchestrator emits an empty result and signals the diagnostic; an exception of \<^verbatim>\<open>setUp\<close>
  reaches the caller.
\<close>

datatype filter_result = Output "PointT list" | PCLException

definition applyFilter ::
  "GridFilterBase \<Rightarrow> Collaborators \<Rightarrow> PointT list \<Rightarrow> VoxelStructT
    \<Rightarrow> (filter_result \<times> string list \<times> VoxelStructT) option" where
  "applyFilter gf env input st =
    (if input = [] then Some (Output [], [], st)
     else do {
       (r, warnings, st1) \<leftarrow> setUp gf env st;
       (case r of
          Thrown \<Rightarrow> Some (PCLException, warnings, st1)
        | Returned False \<Rightarrow> Some (Output [], warnings, st1)
        | Returned True \<Rightarrow> do {
            st2 \<leftarrow> addPointsToGrid gf input st1;
            (output, st3) \<leftarrow> filterGridAll gf (grid st2) st2;
            Some (Output output, warnings, st3)
          })
     })"

section \<open>The overflow check\<close>





section \<open>The grid's division counts\<close>

text \<open>
  The number of cells of the grid along one axis, \<open>max_b - min_b + 1\<close> as an integer, and
  the cell of a coordinate relative to the first cell.
\<close>

definition division_count :: "real \<Rightarrow> real \<Rightarrow> real \<Rightarrow> int" where
  "division_count lo hi ils = \<lfloor>hi * ils\<rfloor> - \<lfloor>lo * ils\<rfloor> + 1"

definition cell_offset :: "real \<Rightarrow> real \<Rightarrow> real \<Rightarrow> int" where
  "cell_offset lo v ils = \<lfloor>v * ils\<rfloor> - \<lfloor>lo * ils\<rfloor>"

text \<open>
  The cells of an axis lie where single precision is exact on whole numbers: the first and
  the last cell within \<open>2 ^ 24\<close> of 0, and at most \<open>2 ^ 24\<close> apart.
\<close>

definition float_exact_axis :: "real \<Rightarrow> real \<Rightarrow> real \<Rightarrow> bool" where
  "float_exact_axis lo hi ils =
    (- (2 ^ 24) \<le> \<lfloor>lo * ils\<rfloor> \<and> \<lfloor>hi * ils\<rfloor> \<le> 2 ^ 24
     \<and> \<lfloor>hi * ils\<rfloor> - \<lfloor>lo * ils\<rfloor> \<le> 2 ^ 24)"

section \<open>Emission\<close>

text \<open>
  A cell is emitted when its occupancy reaches the configured minimum: the test
  \<^verbatim>\<open>voxel.num_pt >= min_points_per_voxel\<close> of \<^verbatim>\<open>filterGrid\<close>.
\<close>

definition emits :: "GridFilterBase \<Rightarrow> size_t \<times> Voxel \<Rightarrow> bool" where
  "emits gf cell = (getMinimumPointsNumberPerVoxel gf \<le> num_pt (snd cell))"

section \<open>The points of a cell\<close>

text \<open>
  What \<^verbatim>\<open>addPointToGrid\<close> does to the voxel of the point's key: the running sum of the
  active mode takes the point, and the occupancy grows by one.
\<close>

definition add_to_voxel :: "GridFilterBase \<Rightarrow> Voxel \<Rightarrow> PointT \<Rightarrow> Voxel" where
  "add_to_voxel gf voxel pt =
    (let voxel1 = (if \<not> getDownsampleAllData gf
                   then voxel\<lparr>coord_centroid :=
                          vec4_zip (+) (coord_centroid voxel) (getVector4fMap pt)\<rparr>
                   else voxel\<lparr>centroid := CentroidPoint_add (centroid voxel) pt\<rparr>)
     in voxel1\<lparr>num_pt := num_pt voxel1 + 1\<rparr>)"

text \<open>
  The points of a cloud that are added to the cell with key \<open>h\<close>: those that the field
  filter does not skip and that hash to \<open>h\<close>, in the order of the cloud.
\<close>

definition cell_points :: "GridFilterBase \<Rightarrow> VoxelStructT \<Rightarrow> PointT list \<Rightarrow> size_t \<Rightarrow> PointT list" where
  "cell_points gf st pts h =
    filter (\<lambda>pt. field_filter_skips gf st pt = Some False \<and> hashPoint st pt = Some h) pts"


section \<open>The cells of a cloud\<close>

text \<open>
  The keys of the cells that a cloud occupies, each once: the hashes of the points that the
  field filter does not skip. The occupancy of a cell is the number of points of the cloud
  that are added to it.
\<close>

definition cell_keys :: "GridFilterBase \<Rightarrow> VoxelStructT \<Rightarrow> PointT list \<Rightarrow> size_t list" where
  "cell_keys gf st pts =
    remdups (List.map_filter
      (\<lambda>pt. if field_filter_skips gf st pt = Some False then hashPoint st pt else None) pts)"


text \<open>
  A point that \<^verbatim>\<open>addPointToGrid\<close> can take after \<^verbatim>\<open>setUp\<close>: the field that the filter reads
  exists, and the point fails the range test or lies within the extrema (which are those
  of the points that pass the test).
\<close>

definition within_extrema :: "real vec4 \<Rightarrow> real vec4 \<Rightarrow> PointT \<Rightarrow> bool" where
  "within_extrema min_p max_p pt =
    (c0 min_p \<le> px pt \<and> px pt \<le> c0 max_p \<and> c1 min_p \<le> py pt \<and> py pt \<le> c1 max_p
     \<and> c2 min_p \<le> pz pt \<and> pz pt \<le> c2 max_p)"

definition binnable ::
  "GridFilterBase \<Rightarrow> VoxelStructT \<Rightarrow> real vec4 \<Rightarrow> real vec4 \<Rightarrow> PointT \<Rightarrow> bool" where
  "binnable gf st min_p max_p pt =
    (case field_filter_skips gf st pt of
       None \<Rightarrow> False
     | Some skipped \<Rightarrow> skipped \<or> within_extrema min_p max_p pt)"

text \<open>
  A grid that the code addresses exactly: the inverse leaf size is positive, the cells of
  each axis lie where single precision is exact, and the number of cells fits an \<^verbatim>\<open>int\<close>,
  in which \<^verbatim>\<open>setUp\<close> computes the multipliers and the size of the leaf layout.
\<close>

definition exact_grid :: "real vec4 \<Rightarrow> real vec4 \<Rightarrow> real vec4 \<Rightarrow> bool" where
  "exact_grid min_p max_p ils =
    (0 < c0 ils \<and> 0 < c1 ils \<and> 0 < c2 ils
     \<and> float_exact_axis (c0 min_p) (c0 max_p) (c0 ils)
     \<and> float_exact_axis (c1 min_p) (c1 max_p) (c1 ils)
     \<and> float_exact_axis (c2 min_p) (c2 max_p) (c2 ils)
     \<and> division_count (c0 min_p) (c0 max_p) (c0 ils)
         * division_count (c1 min_p) (c1 max_p) (c1 ils)
         * division_count (c2 min_p) (c2 max_p) (c2 ils) \<le> 2 ^ 31 - 1)"

section \<open>The field-range test\<close>

text \<open>
  The range test in the words of the specification: a value fails it when it lies outside
  \<open>[lo, hi]\<close>, or, with the negative flag, when it lies strictly inside \<open>(lo, hi)\<close>.
\<close>

definition fails_range_test :: "bool \<Rightarrow> real \<Rightarrow> real \<Rightarrow> real \<Rightarrow> bool" where
  "fails_range_test negative lo hi v =
    (if negative then lo < v \<and> v < hi else \<not> (lo \<le> v \<and> v \<le> hi))"

section \<open>Example data\<close>

text \<open>A point with the given coordinates, as \<^verbatim>\<open>PointXYZ(x, y, z)\<close> builds it.\<close>

definition PointXYZ :: "real \<Rightarrow> real \<Rightarrow> real \<Rightarrow> PointT" where
  "PointXYZ a b c = \<lparr>px = a, py = b, pz = c, pw = 1, aux = []\<rparr>"

text \<open>A freshly constructed grid after \<^verbatim>\<open>setLeafSize(1, 1, 1)\<close>.\<close>

definition unit_grid :: VoxelStructT where
  "unit_grid = setLeafSize 1 1 1 VoxelStructT_init"

text \<open>
  A filter call that saves the leaf layout, on two points in two cells of a grid of 2 x 2 x 1
  cells: geometry-only averaging, leaf size 1.
\<close>

definition two_cell_settings :: GridFilterBase where
  "two_cell_settings =
    GridFilterBase_init\<lparr>downsample_all_data := False, getSaveLeafLayout := True\<rparr>"

definition two_cell_env :: Collaborators where
  "two_cell_env =
    \<lparr>point_fields = [''x'', ''y'', ''z''],
     getMinMax3D = (Vec4 (1 / 2) (1 / 2) (1 / 2) 1, Vec4 (3 / 2) (3 / 2) (1 / 2) 1),
     layout_capacity = 2 ^ 20\<rparr>"

definition two_cell_cloud :: "PointT list" where
  "two_cell_cloud = [PointXYZ (3 / 2) (1 / 2) (1 / 2), PointXYZ (1 / 2) (3 / 2) (1 / 2)]"

text \<open>The state after \<^verbatim>\<open>setUp\<close>.\<close>

definition two_cell_ready :: VoxelStructT where
  "two_cell_ready =
    unit_grid\<lparr>min_b := Vec4 0 0 0 1, max_b := Vec4 1 1 0 1, div_b := Vec4 2 2 1 1,
      divb_mul := Vec4 1 2 4 0, num_voxels := 0, leaf_layout := [- 1, - 1, - 1, - 1]\<rparr>"

definition voxel_A :: Voxel where
  "voxel_A = Voxel_init\<lparr>coord_centroid := Vec4 (3 / 2) (1 / 2) (1 / 2) 1, num_pt := 1\<rparr>"

definition voxel_B :: Voxel where
  "voxel_B = Voxel_init\<lparr>coord_centroid := Vec4 (1 / 2) (3 / 2) (1 / 2) 1, num_pt := 1\<rparr>"

text \<open>The state after the filter call.\<close>

definition two_cell_filtered :: VoxelStructT where
  "two_cell_filtered =
    two_cell_ready\<lparr>grid := [(1, voxel_A), (2, voxel_B)], leaf_layout := [- 1, 0, 1, - 1],
      num_voxels := 2\<rparr>"

text \<open>
  The same object after a further filter call, on \<open>huge_cloud\<close> below, whose \<^verbatim>\<open>setUp\<close>
  fails.
\<close>

definition two_cell_failed :: VoxelStructT where
  "two_cell_failed =
    two_cell_filtered\<lparr>min_b := Vec4 0 0 0 1, max_b := Vec4 4194304 4194304 4194304 1,
      div_b := Vec4 4194305 4194305 4194305 1, divb_mul := Vec4 1 4194305 8388609 0,
      num_voxels := 0\<rparr>"



text \<open>
  A cloud whose x coordinates span -0.5 to 16777218 at leaf size 1: 16777220 cells, more
  than single precision counts exactly.
\<close>

definition edge_env :: Collaborators where
  "edge_env =
    \<lparr>point_fields = [''x'', ''y'', ''z''],
     getMinMax3D = (Vec4 (- 1 / 2) 0 0 1, Vec4 16777218 0 0 1),
     layout_capacity = 2 ^ 20\<rparr>"

definition edge_ready :: VoxelStructT where
  "edge_ready =
    unit_grid\<lparr>min_b := Vec4 (- 1) 0 0 1, max_b := Vec4 16777218 0 0 1,
      div_b := Vec4 16777220 1 1 1, divb_mul := Vec4 1 16777220 16777220 0,
      num_voxels := 0\<rparr>"

text \<open>A cloud that spans 65536 x 32768 x 2 cells at leaf size 1.\<close>

definition wide_env :: Collaborators where
  "wide_env =
    \<lparr>point_fields = [''x'', ''y'', ''z''],
     getMinMax3D = (Vec4 0 0 0 1, Vec4 65535 32767 1 1),
     layout_capacity = 2 ^ 20\<rparr>"

definition wide_ready :: VoxelStructT where
  "wide_ready =
    unit_grid\<lparr>min_b := Vec4 0 0 0 1, max_b := Vec4 65535 32767 1 1,
      div_b := Vec4 65536 32768 2 1, divb_mul := Vec4 1 65536 (- 2147483648) 0,
      num_voxels := 0\<rparr>"

text \<open>
  Two points that span \<open>2 ^ 22 + 1\<close> cells on each axis at leaf size 1: more than
  \<open>2 ^ 64\<close> cells.
\<close>

definition huge_env :: Collaborators where
  "huge_env =
    \<lparr>point_fields = [''x'', ''y'', ''z''],
     getMinMax3D = (Vec4 0 0 0 1, Vec4 4194304 4194304 4194304 1),
     layout_capacity = 2 ^ 20\<rparr>"

definition huge_cloud :: "PointT list" where
  "huge_cloud = [PointXYZ 0 0 0, PointXYZ 4194304 4194304 4194304]"




text \<open>
  The scenario of the specification: the cloud (0, 0, 0), (0.01, 0.01, 0.01), (5, 5, 5) at leaf
  size 1 with at least two points per voxel, geometry-only; the state after \<^verbatim>\<open>setUp\<close> and
  the two voxels after binning.
\<close>

definition scenario_settings :: GridFilterBase where
  "scenario_settings =
    GridFilterBase_init\<lparr>downsample_all_data := False, min_points_per_voxel := 2\<rparr>"

definition scenario_cloud :: "PointT list" where
  "scenario_cloud = [PointXYZ 0 0 0, PointXYZ (1 / 100) (1 / 100) (1 / 100), PointXYZ 5 5 5]"

definition scenario_ready :: VoxelStructT where
  "scenario_ready =
    unit_grid\<lparr>min_b := Vec4 0 0 0 1, max_b := Vec4 5 5 5 1, div_b := Vec4 6 6 6 1,
      divb_mul := Vec4 1 6 36 0, num_voxels := 0\<rparr>"

definition scenario_pair :: Voxel where
  "scenario_pair =
    Voxel_init\<lparr>coord_centroid := Vec4 (1 / 100) (1 / 100) (1 / 100) 2, num_pt := 2\<rparr>"

definition scenario_single :: Voxel where
  "scenario_single = Voxel_init\<lparr>coord_centroid := Vec4 5 5 5 1, num_pt := 1\<rparr>"



definition scenario_env :: Collaborators where
  "scenario_env =
    \<lparr>point_fields = [''x'', ''y'', ''z''],
     getMinMax3D = (Vec4 0 0 0 1, Vec4 5 5 5 1),
     layout_capacity = 2 ^ 20\<rparr>"

text \<open>
  The same filter object after one filter call on the scenario, and after a second call on
  the same cloud: the voxels of the first call are still in the grid when the second call
  bins the cloud.
\<close>

definition scenario_once :: VoxelStructT where
  "scenario_once =
    scenario_ready\<lparr>grid :=
      [(0, Voxel_init\<lparr>coord_centroid := Vec4 (1 / 200) (1 / 200) (1 / 200) 1, num_pt := 2\<rparr>),
       (215, scenario_single)]\<rparr>"

definition scenario_rebinned :: "(size_t \<times> Voxel) list" where
  "scenario_rebinned =
    [(0, Voxel_init\<lparr>coord_centroid := Vec4 (3 / 200) (3 / 200) (3 / 200) 3, num_pt := 4\<rparr>),
     (215, Voxel_init\<lparr>coord_centroid := Vec4 10 10 10 2, num_pt := 2\<rparr>)]"

definition scenario_twice :: VoxelStructT where
  "scenario_twice =
    scenario_ready\<lparr>grid :=
      [(0, Voxel_init\<lparr>coord_centroid := Vec4 (3 / 800) (3 / 800) (3 / 800) (3 / 4), num_pt := 4\<rparr>),
       (215, Voxel_init\<lparr>coord_centroid := Vec4 5 5 5 1, num_pt := 2\<rparr>)]\<rparr>"

section \<open>VoxelStructT, the revision that is handed the filter (voxel\_grid.h)\<close>

text \<open>
  In this revision \<^verbatim>\<open>setUp\<close> receives the filter object, the grid maps a key to a
  \<^verbatim>\<open>CentroidPoint\<close>, and \<^verbatim>\<open>save_leaf_layout_\<close>, \<^verbatim>\<open>downsample_all_data_\<close> and
  \<^verbatim>\<open>min_points_per_voxel_\<close> are members of the grid structure. The names of this revision
  end in \<open>2\<close>.
\<close>

record VoxelStruct2 =
  filter_name2 :: string
  leaf_size2 :: "real vec4"
  inverse_leaf_size2 :: "real vec4"
  save_leaf_layout2 :: bool
  leaf_layout2 :: "int32 list"
  min_b2 :: "int32 vec4"
  max_b2 :: "int32 vec4"
  div_b2 :: "int32 vec4"
  divb_mul2 :: "int32 vec4"
  grid2 :: "(size_t \<times> CentroidPoint) list"
  num_voxels2 :: nat
  downsample_all_data2 :: bool
  min_points_per_voxel2 :: nat

text \<open>The constructor. Members it leaves uninitialised are given fixed values here.\<close>

definition VoxelStruct2_init :: VoxelStruct2 where
  "VoxelStruct2_init =
    \<lparr>filter_name2 = ''VoxelGrid'',
     leaf_size2 = Vec4 0 0 0 0,
     inverse_leaf_size2 = Vec4 0 0 0 0,
     save_leaf_layout2 = False,
     leaf_layout2 = [],
     min_b2 = Vec4 0 0 0 0,
     max_b2 = Vec4 0 0 0 0,
     div_b2 = Vec4 0 0 0 0,
     divb_mul2 = Vec4 0 0 0 0,
     grid2 = [],
     num_voxels2 = 0,
     downsample_all_data2 = False,
     min_points_per_voxel2 = 0\<rparr>"

text \<open>\<^verbatim>\<open>setLeafSize(const Eigen::Vector4f&)\<close> and \<^verbatim>\<open>setLeafSize(lx, ly, lz)\<close>.\<close>

definition setLeafSize4_2 :: "real vec4 \<Rightarrow> VoxelStruct2 \<Rightarrow> VoxelStruct2" where
  "setLeafSize4_2 v st =
    st\<lparr>leaf_size2 := avoid_division_errors v,
       inverse_leaf_size2 := array_inverse (avoid_division_errors v)\<rparr>"

definition setLeafSize_2 :: "real \<Rightarrow> real \<Rightarrow> real \<Rightarrow> VoxelStruct2 \<Rightarrow> VoxelStruct2" where
  "setLeafSize_2 lx ly lz st =
    st\<lparr>leaf_size2 := avoid_division_errors (Vec4 lx ly lz (c3 (leaf_size2 st))),
       inverse_leaf_size2 :=
         array_inverse (avoid_division_errors (Vec4 lx ly lz (c3 (leaf_size2 st))))\<rparr>"

definition setSaveLeafLayout :: "bool \<Rightarrow> VoxelStruct2 \<Rightarrow> VoxelStruct2" where
  "setSaveLeafLayout save_leaf_layout st = st\<lparr>save_leaf_layout2 := save_leaf_layout\<rparr>"

text \<open>
  \<^verbatim>\<open>VoxelStructT::setUp(transform_filter)\<close>. The settings are copied from the filter, the
  counter is reset and \<^verbatim>\<open>grid_.clear()\<close> empties the grid before the hash range is
  checked; \<^verbatim>\<open>checkHashRange\<close> reports an overflow as 0. \<^verbatim>\<open>grid_.reserve\<close> changes only
  the capacity of the map and is left out.
\<close>

definition setUp2 ::
  "GridFilterBase \<Rightarrow> Collaborators \<Rightarrow> VoxelStruct2
    \<Rightarrow> (setUp_result \<times> string list \<times> VoxelStruct2) option" where
  "setUp2 gf env st =
    (let st1 = st\<lparr>downsample_all_data2 := getDownsampleAllData gf,
                  min_points_per_voxel2 := getMinimumPointsNumberPerVoxel gf\<rparr>;
         min_p = fst (getMinMax3D env);
         max_p = snd (getMinMax3D env)
     in do {
       mnb \<leftarrow> floor_cast_int (vec4_zip (*) min_p (inverse_leaf_size2 st1));
       mxb \<leftarrow> floor_cast_int (vec4_zip (*) max_p (inverse_leaf_size2 st1));
       let db = vec4_zip (\<lambda>a b. a - b + 1) mxb mnb;
       let st2 = st1\<lparr>min_b2 := mnb, max_b2 := mxb, div_b2 := db,
                     divb_mul2 := Vec4 1 (c0 db) (c0 db * c1 db) 0,
                     num_voxels2 := 0, grid2 := []\<rparr>;
       hash_range \<leftarrow> checkHashRange min_p max_p (inverse_leaf_size2 st2);
       if hash_range \<noteq> 0 then
         (if save_leaf_layout2 st2 then
            (let new_layout_size = unat (scast (c0 db * c1 db * c2 db) :: size_t);
                 filled = fill_leaf_layout new_layout_size (leaf_layout2 st2)
             in if new_layout_size > layout_capacity env
                then Some (Thrown, [], st2\<lparr>leaf_layout2 := filled\<rparr>)
                else Some (Returned True, [],
                       st2\<lparr>leaf_layout2 := resize_leaf_layout new_layout_size filled\<rparr>))
          else Some (Returned True, [], st2))
       else Some (Returned False, [warn_overflow (filter_name2 st2)], st2)
     })"

text \<open>\<^verbatim>\<open>grid_[h]\<close>: the accumulator of the key, value-initialised when the key is new.\<close>

definition grid2_at :: "(size_t \<times> CentroidPoint) list \<Rightarrow> size_t \<Rightarrow> CentroidPoint" where
  "grid2_at g h = (case map_of g h of None \<Rightarrow> CentroidPoint_init | Some c \<Rightarrow> c)"

text \<open>\<^verbatim>\<open>VoxelStructT::addPointToGrid\<close>: \<^verbatim>\<open>grid_[h].add(pt)\<close>.\<close>

definition addPointToGrid2 :: "PointT \<Rightarrow> VoxelStruct2 \<Rightarrow> VoxelStruct2 option" where
  "addPointToGrid2 pt st = do {
     h \<leftarrow> GridFilterBase_hashPoint pt (inverse_leaf_size2 st) (min_b2 st) (divb_mul2 st);
     Some (st\<lparr>grid2 := AList.update h (CentroidPoint_add (grid2_at (grid2 st) h) pt) (grid2 st)\<rparr>)
   }"

text \<open>
  \<^verbatim>\<open>VoxelStructT::filterGrid\<close>. In geometry-only mode the coordinate block of the averaged
  point is copied into a default-constructed point. The leaf layout is written after the
  centroid has been computed.
\<close>

definition filterGrid2 ::
  "size_t \<times> CentroidPoint \<Rightarrow> VoxelStruct2 \<Rightarrow> (PointT option \<times> VoxelStruct2) option" where
  "filterGrid2 grid_it st =
    (let voxel = snd grid_it in
     if num_points voxel \<ge> min_points_per_voxel2 st then do {
       centroid \<leftarrow>
         (if \<not> downsample_all_data2 st then do {
            pt \<leftarrow> CentroidPoint_get voxel;
            Some (PointT_default\<lparr>px := px pt, py := py pt, pz := pz pt, pw := pw pt\<rparr>)
          }
          else CentroidPoint_get voxel);
       st1 \<leftarrow>
         (if save_leaf_layout2 st then
            (if unat (fst grid_it) < length (leaf_layout2 st)
             then Some (st\<lparr>leaf_layout2 :=
                             (leaf_layout2 st)[unat (fst grid_it) := word_of_nat (num_voxels2 st)],
                           num_voxels2 := num_voxels2 st + 1\<rparr>)
             else None)
          else Some st);
       Some (Some centroid, st1)
     }
     else Some (None, st))"

text \<open>The two iterations of a filter call: over the points of the input, and over the grid.\<close>

fun addPointsToGrid2 :: "PointT list \<Rightarrow> VoxelStruct2 \<Rightarrow> VoxelStruct2 option" where
  "addPointsToGrid2 [] st = Some st"
| "addPointsToGrid2 (pt # pts) st = do {
     st1 \<leftarrow> addPointToGrid2 pt st;
     addPointsToGrid2 pts st1
   }"

fun filterGridAll2 ::
  "(size_t \<times> CentroidPoint) list \<Rightarrow> VoxelStruct2 \<Rightarrow> (PointT list \<times> VoxelStruct2) option" where
  "filterGridAll2 [] st = Some ([], st)"
| "filterGridAll2 (grid_it # its) st = do {
     (res, st1) \<leftarrow> filterGrid2 grid_it st;
     (output, st2) \<leftarrow> filterGridAll2 its st1;
     Some ((case res of None \<Rightarrow> output | Some p \<Rightarrow> p # output), st2)
   }"

text \<open>
  Modelled from the spec: \<^verbatim>\<open>TransformFilter::applyFilter\<close> (transform_filter.h, not part of
  the available sources) for this revision: the same three phases as above, with the
  filter handed to \<^verbatim>\<open>setUp\<close>.
\<close>

definition applyFilter2 ::
  "GridFilterBase \<Rightarrow> Collaborators \<Rightarrow> PointT list \<Rightarrow> VoxelStruct2
    \<Rightarrow> (filter_result \<times> string list \<times> VoxelStruct2) option" where
  "applyFilter2 gf env input st =
    (if input = [] then Some (Output [], [], st)
     else do {
       (r, warnings, st1) \<leftarrow> setUp2 gf env st;
       (case r of
          Thrown \<Rightarrow> Some (PCLException, warnings, st1)
        | Returned False \<Rightarrow> Some (Output [], warnings, st1)
        | Returned True \<Rightarrow> do {
            st2 \<leftarrow> addPointsToGrid2 input st1;
            (output, st3) \<leftarrow> filterGridAll2 (grid2 st2) st2;
            Some (Output output, warnings, st3)
          })
     })"


text \<open>
  A grid structure of this revision that has been used before: leaf size 1, leaf layout
  saved, and one voxel with the point (9, 9, 9) left in the grid by an earlier call. The
  filter call on the two points of \<open>two_cell_cloud\<close> rebuilds it.
\<close>

definition stale_grid :: VoxelStruct2 where
  "stale_grid =
    (setSaveLeafLayout True (setLeafSize_2 1 1 1 VoxelStruct2_init))
      \<lparr>leaf_layout2 := [0], min_b2 := Vec4 9 9 9 1, max_b2 := Vec4 9 9 9 1,
       div_b2 := Vec4 1 1 1 1, divb_mul2 := Vec4 1 1 1 0,
       grid2 := [(0, CentroidPoint_add CentroidPoint_init (PointXYZ 9 9 9))],
       num_voxels2 := 1\<rparr>"

definition sums_A :: CentroidPoint where
  "sums_A = \<lparr>field_sums = [3 / 2, 1 / 2, 1 / 2], num_points = 1\<rparr>"

definition sums_B :: CentroidPoint where
  "sums_B = \<lparr>field_sums = [1 / 2, 3 / 2, 1 / 2], num_points = 1\<rparr>"

definition rebuilt_ready :: VoxelStruct2 where
  "rebuilt_ready =
    \<lparr>filter_name2 = ''VoxelGrid'',
     leaf_size2 = Vec4 1 1 1 1,
     inverse_leaf_size2 = Vec4 1 1 1 1,
     save_leaf_layout2 = True,
     leaf_layout2 = [- 1, - 1, - 1, - 1],
     min_b2 = Vec4 0 0 0 1,
     max_b2 = Vec4 1 1 0 1,
     div_b2 = Vec4 2 2 1 1,
     divb_mul2 = Vec4 1 2 4 0,
     grid2 = [],
     num_voxels2 = 0,
     downsample_all_data2 = False,
     min_points_per_voxel2 = 0\<rparr>"

definition rebuilt_grid :: VoxelStruct2 where
  "rebuilt_grid =
    rebuilt_ready\<lparr>grid2 := [(1, sums_A), (2, sums_B)], leaf_layout2 := [- 1, 0, 1, - 1],
      num_voxels2 := 2\<rparr>"

section \<open>Properties of the overflow check\<close>

lemma size_t_of_float_int:
  "0 \<le> n \<Longrightarrow> n < 2 ^ 64 \<Longrightarrow> size_t_of_float (real_of_int n) = Some (word_of_int n)"
  by (simp add: size_t_of_float_def trunc_def)

lemma size_t_of_float_floor1:
  assumes "0 \<le> v" "\<lfloor>v\<rfloor> + 1 \<le> 2 ^ 64 - 1"
  shows "size_t_of_float (real_of_int \<lfloor>v\<rfloor> + 1) = Some (word_of_int (\<lfloor>v\<rfloor> + 1))"
proof -
  have "0 \<le> \<lfloor>v\<rfloor> + 1" using assms(1) by simp
  moreover have "\<lfloor>v\<rfloor> + 1 < 2 ^ 64" using assms(2) by simp
  ultimately show ?thesis
    using size_t_of_float_int [of "\<lfloor>v\<rfloor> + 1"] by simp
qed





lemma round_float_exact: "\<bar>n\<bar> \<le> 2 ^ 24 \<Longrightarrow> round_float n = n"
  by (simp add: round_float_def)

lemma float_ulp_binade:
  assumes "0 \<le> b" "b < 2 ^ w"
  shows "float_ulp (2 ^ w + b) = 2 ^ (w - 23)"
proof -
  have "bitlen (2 ^ w + b) = int w + 1"
    using bitlen_twopow_add_eq [OF assms] by simp
  then show ?thesis by (simp add: float_ulp_def nat_diff_distrib')
qed













section \<open>Properties of the leaf size\<close>

lemma unit_grid_eq:
  "unit_grid = VoxelStructT_init\<lparr>leaf_size := Vec4 1 1 1 1, inverse_leaf_size := Vec4 1 1 1 1\<rparr>"
  by (simp add: unit_grid_def setLeafSize_def VoxelStructT_init_def array_inverse_def
      avoid_division_errors_def)

lemma avoid_division_errors_c3: "c3 (avoid_division_errors ls) \<noteq> 0"
  by (simp add: avoid_division_errors_def)

lemma avoid_division_errors_xyz:
  "c0 (avoid_division_errors ls) = c0 ls" "c1 (avoid_division_errors ls) = c1 ls"
  "c2 (avoid_division_errors ls) = c2 ls"
  by (simp_all add: avoid_division_errors_def)

text \<open>
  Claim C9, as the code has it. After either \<^verbatim>\<open>setLeafSize\<close> only the fourth (homogeneous)
  component of the stored leaf size is normalized: it is 1 when it was zero and is never
  zero, so its stored inverse is a true reciprocal. The x, y and z components are stored as
  they were given, zero or negative included, and the stored inverse leaf size is the
  component-wise reciprocal of the stored leaf size.
  The last four equations say the same of the revision that is handed the filter.
\<close>

theorem setLeafSize_normalizes_fourth_only:
  "c3 (leaf_size (setLeafSize lx ly lz st)) \<noteq> 0
   \<and> c3 (leaf_size (setLeafSize lx ly lz st))
       = (if c3 (leaf_size st) = 0 then 1 else c3 (leaf_size st))
   \<and> c0 (leaf_size (setLeafSize lx ly lz st)) = lx
   \<and> c1 (leaf_size (setLeafSize lx ly lz st)) = ly
   \<and> c2 (leaf_size (setLeafSize lx ly lz st)) = lz
   \<and> inverse_leaf_size (setLeafSize lx ly lz st)
       = array_inverse (leaf_size (setLeafSize lx ly lz st))
   \<and> c3 (inverse_leaf_size (setLeafSize lx ly lz st)) * c3 (leaf_size (setLeafSize lx ly lz st)) = 1
   \<and> c3 (leaf_size (setLeafSize4 v st)) \<noteq> 0
   \<and> c3 (leaf_size (setLeafSize4 v st)) = (if c3 v = 0 then 1 else c3 v)
   \<and> c0 (leaf_size (setLeafSize4 v st)) = c0 v
   \<and> c1 (leaf_size (setLeafSize4 v st)) = c1 v
   \<and> c2 (leaf_size (setLeafSize4 v st)) = c2 v
   \<and> inverse_leaf_size (setLeafSize4 v st) = array_inverse (leaf_size (setLeafSize4 v st))
   \<and> c3 (inverse_leaf_size (setLeafSize4 v st)) * c3 (leaf_size (setLeafSize4 v st)) = 1
   \<and> leaf_size2 (setLeafSize_2 lx ly lz st2)
       = Vec4 lx ly lz (if c3 (leaf_size2 st2) = 0 then 1 else c3 (leaf_size2 st2))
   \<and> inverse_leaf_size2 (setLeafSize_2 lx ly lz st2)
       = array_inverse (leaf_size2 (setLeafSize_2 lx ly lz st2))
   \<and> leaf_size2 (setLeafSize4_2 v st2) = Vec4 (c0 v) (c1 v) (c2 v) (if c3 v = 0 then 1 else c3 v)
   \<and> inverse_leaf_size2 (setLeafSize4_2 v st2)
       = array_inverse (leaf_size2 (setLeafSize4_2 v st2))"
proof -
  have v: "(if c3 v = 0 then Vec4 (c0 v) (c1 v) (c2 v) 1 else v)
      = Vec4 (c0 v) (c1 v) (c2 v) (if c3 v = 0 then 1 else c3 v)"
    by (cases v) simp
  show ?thesis
    by (simp add: setLeafSize_def setLeafSize4_def setLeafSize_2_def setLeafSize4_2_def
        avoid_division_errors_def array_inverse_def v)
qed

text \<open>
  The claim as stated fails: a zero x component stays zero, in both overloads, so the
  stored leaf size is not strictly positive.
\<close>

theorem setLeafSize_keeps_zero_x:
  "c0 (leaf_size (setLeafSize 0 1 1 VoxelStructT_init)) = 0
   \<and> c0 (leaf_size (setLeafSize4 (Vec4 0 1 1 0) VoxelStructT_init)) = 0
   \<and> c0 (leaf_size2 (setLeafSize_2 0 1 1 VoxelStruct2_init)) = 0
   \<and> c0 (leaf_size2 (setLeafSize4_2 (Vec4 0 1 1 0) VoxelStruct2_init)) = 0"
  by (simp add: setLeafSize_def setLeafSize4_def setLeafSize_2_def setLeafSize4_2_def
      avoid_division_errors_def)

section \<open>Properties of the field-range filter\<close>

lemma field_filter_skips_iff:
  assumes "filter_field_name st \<noteq> []" "field_at pt (filter_field_idx st) = Some v"
  shows "field_filter_skips gf st pt =
    Some (fails_range_test (getFilterLimitsNegative gf) (filter_limit_min st)
            (filter_limit_max st) v)"
  using assms by (auto simp add: field_filter_skips_def fails_range_test_def)

text \<open>
  Claim C6. When a filter field name is configured and the point's value of that field
  fails the range test (outside \<open>[filter_limit_min, filter_limit_max]\<close>, or strictly inside
  the open interval when the negative flag is set), \<^verbatim>\<open>addPointToGrid\<close> returns before the
  point is hashed and leaves the whole state as it was: no running sum, no count and no
  grid entry changes.
\<close>

theorem addPointToGrid_skips_filtered:
  assumes "filter_field_name st \<noteq> []"
    and "field_at pt (filter_field_idx st) = Some v"
    and "fails_range_test (getFilterLimitsNegative gf) (filter_limit_min st)
           (filter_limit_max st) v"
  shows "addPointToGrid gf pt st = Some st"
  using assms field_filter_skips_iff [OF assms(1,2), of gf]
  by (simp add: addPointToGrid_def)

text \<open>
  A point with z = 5 against the limits \<open>[0, 1]\<close> on the field z: it is skipped although
  its hash is not even defined in this state.
\<close>

theorem addPointToGrid_skips_filtered_witness:
  "hashPoint (unit_grid\<lparr>min_b := Vec4 10 10 10 0, filter_field_idx := 2, filter_limit_min := 0,
       filter_limit_max := 1, filter_field_name := ''z''\<rparr>) (PointXYZ 0 0 5) = None
   \<and> addPointToGrid GridFilterBase_init (PointXYZ 0 0 5)
       (unit_grid\<lparr>min_b := Vec4 10 10 10 0, filter_field_idx := 2, filter_limit_min := 0,
          filter_limit_max := 1, filter_field_name := ''z''\<rparr>)
     = Some (unit_grid\<lparr>min_b := Vec4 10 10 10 0, filter_field_idx := 2, filter_limit_min := 0,
          filter_limit_max := 1, filter_field_name := ''z''\<rparr>)"
proof -
  let ?st = "unit_grid\<lparr>min_b := Vec4 10 10 10 0, filter_field_idx := 2, filter_limit_min := 0,
       filter_limit_max := 1, filter_field_name := ''z''\<rparr>"
  have name: "filter_field_name ?st \<noteq> []" by simp
  have val: "field_at (PointXYZ 0 0 5) (filter_field_idx ?st) = Some 5"
    by (simp add: field_at_def all_fields_def PointXYZ_def)
  have fails: "fails_range_test (getFilterLimitsNegative GridFilterBase_init)
      (filter_limit_min ?st) (filter_limit_max ?st) 5"
    by (simp add: fails_range_test_def GridFilterBase_init_def)
  have hash: "hashPoint ?st (PointXYZ 0 0 5) = None"
    by (simp add: hashPoint_def unit_grid_eq VoxelStructT_init_def PointXYZ_def
        size_t_of_float_def round_float_exact)
  from hash addPointToGrid_skips_filtered [OF name val fails] show ?thesis by simp
qed

section \<open>A filter call on two cells\<close>

lemma replicate4: "replicate 4 x = [x, x, x, x]"
  by (simp add: numeral_eq_Suc)

lemmas conv_defs = size_t_of_float_def int_of_float_def trunc_def floor_cast_int_def vec4_zip_def
  round_float_exact

lemma two_cell_setUp: "setUp two_cell_settings two_cell_env unit_grid = Some (Returned True, [], two_cell_ready)"
  unfolding setUp_def Let_def unit_grid_eq two_cell_ready_def
  by (simp add: two_cell_env_def two_cell_settings_def conv_defs VoxelStructT_init_def GridFilterBase_init_def
      checkIfOverflow_def max_size_def fill_leaf_layout_def resize_leaf_layout_def replicate4)


lemma two_cell_hash_A: "hashPoint (two_cell_ready\<lparr>grid := g\<rparr>) (PointXYZ (3/2) (1/2) (1/2)) = Some 1"
  unfolding two_cell_ready_def unit_grid_eq
  by (simp add: hashPoint_def PointXYZ_def conv_defs VoxelStructT_init_def)
lemma two_cell_hash_B: "hashPoint (two_cell_ready\<lparr>grid := g\<rparr>) (PointXYZ (1/2) (3/2) (1/2)) = Some 2"
  unfolding two_cell_ready_def unit_grid_eq
  by (simp add: hashPoint_def PointXYZ_def conv_defs VoxelStructT_init_def)

lemma two_cell_no_skip: "field_filter_skips two_cell_settings (two_cell_ready\<lparr>grid := g\<rparr>) pt = Some False"
  unfolding two_cell_ready_def unit_grid_eq
  by (simp add: field_filter_skips_def VoxelStructT_init_def)

lemma two_cell_ready_grid: "two_cell_ready\<lparr>grid := []\<rparr> = two_cell_ready"
  unfolding two_cell_ready_def unit_grid_eq by (simp add: VoxelStructT_init_def)

lemma two_cell_binned: "addPointsToGrid two_cell_settings two_cell_cloud two_cell_ready = Some (two_cell_ready\<lparr>grid := [(1, voxel_A), (2, voxel_B)]\<rparr>)"
proof -
  have a: "addPointToGrid two_cell_settings (PointXYZ (3/2) (1/2) (1/2)) (two_cell_ready\<lparr>grid := []\<rparr>) = Some (two_cell_ready\<lparr>grid := [(1, voxel_A)]\<rparr>)"
    unfolding addPointToGrid_def Let_def two_cell_no_skip two_cell_hash_A
    by (simp add: two_cell_settings_def GridFilterBase_init_def getDownsampleAllData_def grid_at_def voxel_A_def
        Voxel_init_def vec4_zip_def getVector4fMap_def PointXYZ_def)
  have b: "addPointToGrid two_cell_settings (PointXYZ (1/2) (3/2) (1/2)) (two_cell_ready\<lparr>grid := [(1, voxel_A)]\<rparr>) = Some (two_cell_ready\<lparr>grid := [(1, voxel_A), (2, voxel_B)]\<rparr>)"
    unfolding addPointToGrid_def Let_def two_cell_no_skip two_cell_hash_B
    by (simp add: two_cell_settings_def GridFilterBase_init_def getDownsampleAllData_def grid_at_def voxel_B_def
        Voxel_init_def vec4_zip_def getVector4fMap_def PointXYZ_def)
  show ?thesis using a b by (simp add: two_cell_cloud_def two_cell_ready_grid)
qed

lemma two_cell_emitted: "filterGridAll two_cell_settings [(1, voxel_A), (2, voxel_B)] (two_cell_ready\<lparr>grid := [(1, voxel_A), (2, voxel_B)]\<rparr>) = Some (two_cell_cloud, two_cell_filtered)"
  unfolding two_cell_filtered_def two_cell_ready_def unit_grid_eq
  by (simp add: filterGrid_def Let_def two_cell_settings_def GridFilterBase_init_def getDownsampleAllData_def
      getMinimumPointsNumberPerVoxel_def voxel_A_def voxel_B_def Voxel_init_def VoxelStructT_init_def
      two_cell_cloud_def PointXYZ_def PointT_default_def)

lemma two_cell_applyFilter: "applyFilter two_cell_settings two_cell_env two_cell_cloud unit_grid = Some (Output two_cell_cloud, [], two_cell_filtered)"
proof -
  have g: "grid (two_cell_ready\<lparr>grid := [(1, voxel_A), (2, voxel_B)]\<rparr>) = [(1, voxel_A), (2, voxel_B)]" by simp
  have ne: "two_cell_cloud \<noteq> []" by (simp add: two_cell_cloud_def)
  show ?thesis
    unfolding applyFilter_def using ne by (simp add: two_cell_setUp two_cell_binned two_cell_emitted del: filterGridAll.simps)
qed

section \<open>Neighbour queries\<close>

text \<open>
  Claim C7 at a failing input. After the filter call on the two points, the overload of
  \<^verbatim>\<open>getNeighborCentroidIndices\<close> that takes a \<^verbatim>\<open>std::vector\<close> of offsets is asked, from
  the reference point (1.5, 0.5, 0.5) in cell (1, 0, 0), for the offset (1, 0, 0). The
  absolute cell (2, 0, 0) lies outside the grid, whose x cells are 0 and 1, but no bound is
  checked: the linear index 2 is the cell (0, 1, 0), and its output index 1 is returned
  where the documentation promises -1. For the offset (0, 2, 0) the read is outside
  \<^verbatim>\<open>leaf_layout_\<close>. The overload that takes a matrix of offsets checks the bounds and
  yields -1.
\<close>

theorem getNeighborCentroidIndices_vector_unchecked:
  "applyFilter two_cell_settings two_cell_env two_cell_cloud unit_grid
     = Some (Output two_cell_cloud, [], two_cell_filtered)
   \<and> getNeighborCentroidIndices_vector two_cell_filtered (3 / 2) (1 / 2) (1 / 2) [(1, 0, 0)]
       = Some [1]
   \<and> getNeighborCentroidIndices_vector two_cell_filtered (3 / 2) (1 / 2) (1 / 2) [(0, 2, 0)]
       = None
   \<and> getNeighborCentroidIndices two_cell_filtered (3 / 2) (1 / 2) (1 / 2) [(1, 0, 0)]
       = Some [- 1]"
proof -
  have n1: "getNeighborCentroidIndices_vector two_cell_filtered (3 / 2) (1 / 2) (1 / 2)
      [(1, 0, 0)] = Some [1]"
    unfolding two_cell_filtered_def two_cell_ready_def unit_grid_eq
    by (simp add: getNeighborCentroidIndices_vector_def cell_ijk_def conv_defs
        VoxelStructT_init_def leaf_layout_at_def dot4_def Let_def)
  have n2: "getNeighborCentroidIndices two_cell_filtered (3 / 2) (1 / 2) (1 / 2) [(1, 0, 0)]
      = Some [- 1]"
    unfolding two_cell_filtered_def two_cell_ready_def unit_grid_eq
    by (simp add: getNeighborCentroidIndices_def cell_ijk_def conv_defs VoxelStructT_init_def
        leaf_layout_at_def dot4_def Let_def vec4_all_def word_sle_eq)
  have n3: "getNeighborCentroidIndices_vector two_cell_filtered (3 / 2) (1 / 2) (1 / 2)
      [(0, 2, 0)] = None"
    unfolding two_cell_filtered_def two_cell_ready_def unit_grid_eq
    by (simp add: getNeighborCentroidIndices_vector_def cell_ijk_def conv_defs
        VoxelStructT_init_def leaf_layout_at_def dot4_def Let_def)
  from two_cell_applyFilter n1 n2 n3 show ?thesis by simp
qed

section \<open>Properties of the emission\<close>

lemma filterGrid_below:
  "\<not> emits gf cell \<Longrightarrow> filterGrid gf cell st = Some (None, st)"
  by (simp add: filterGrid_def emits_def Let_def)

lemma filterGrid_emits:
  assumes "filterGrid gf cell st = Some (res, st1)" "emits gf cell"
  shows "res \<noteq> None"
  using assms
  by (auto simp add: filterGrid_def emits_def Let_def bind_eq_Some_conv split: if_splits)

lemma filterGridAll_length:
  "filterGridAll gf its st = Some (out, st') \<Longrightarrow> length out = length (filter (emits gf) its)"
proof (induction its arbitrary: st out st')
  case Nil
  then show ?case by simp
next
  case (Cons it its)
  from Cons.prems obtain res st1 out1 where
    step: "filterGrid gf it st = Some (res, st1)"
    and rest: "filterGridAll gf its st1 = Some (out1, st')"
    and out: "out = (case res of None \<Rightarrow> out1 | Some p \<Rightarrow> p # out1)"
    by (auto split: Option.bind_splits)
  have len: "length out1 = length (filter (emits gf) its)"
    using Cons.IH [OF rest] .
  show ?case
  proof (cases "emits gf it")
    case True
    with filterGrid_emits [OF step] obtain p where "res = Some p" by auto
    with out len True show ?thesis by simp
  next
    case False
    with step have "res = None" by (simp add: filterGrid_below)
    with out len False show ?thesis by simp
  qed
qed

text \<open>
  The emission loop puts out one point for each grid entry whose stored count reaches the
  configured minimum, and for an entry below the minimum \<^verbatim>\<open>filterGrid\<close> returns
  \<^verbatim>\<open>boost::none\<close> with the state unchanged.
\<close>

lemma filterGridAll_count:
  assumes "filterGridAll gf (grid st) st = Some (output, st')"
  shows "length output = length (filter (emits gf) (grid st))
    \<and> (\<forall>cell s. \<not> emits gf cell \<longrightarrow> filterGrid gf cell s = Some (None, s))"
  using filterGridAll_length [OF assms] by (simp add: filterGrid_below)

lemma filterGrid_layout_step:
  assumes "getSaveLeafLayout gf" "filterGrid gf cell st = Some (res, st1)" "emits gf cell"
  shows "unat (fst cell) < length (leaf_layout st)"
    and "leaf_layout st1 = (leaf_layout st)[unat (fst cell) := word_of_nat (num_voxels st)]"
    and "num_voxels st1 = num_voxels st + 1"
  using assms
  by (auto simp add: filterGrid_def emits_def Let_def split: if_splits Option.bind_splits)

lemma filterGridAll_layout:
  assumes "getSaveLeafLayout gf" "filterGridAll gf its st = Some (out, st')"
    "distinct (map fst its)"
  shows "num_voxels st' = num_voxels st + length (filter (emits gf) its)
    \<and> length (leaf_layout st') = length (leaf_layout st)
    \<and> (\<forall>j < length (filter (emits gf) its).
          unat (fst (filter (emits gf) its ! j)) < length (leaf_layout st)
          \<and> leaf_layout st' ! unat (fst (filter (emits gf) its ! j))
              = word_of_nat (num_voxels st + j))
    \<and> (\<forall>i. i \<notin> (\<lambda>c. unat (fst c)) ` set (filter (emits gf) its)
          \<longrightarrow> leaf_layout st' ! i = leaf_layout st ! i)"
  using assms(2,3)
proof (induction its arbitrary: st out st')
  case Nil
  then show ?case by simp
next
  case (Cons it its)
  from Cons.prems(1) obtain res st1 out1 where
    step: "filterGrid gf it st = Some (res, st1)"
    and rest: "filterGridAll gf its st1 = Some (out1, st')"
    by (auto split: Option.bind_splits)
  from Cons.prems(2) have dist: "distinct (map fst its)" and fresh: "fst it \<notin> fst ` set its"
    by simp_all
  note IH = Cons.IH [OF rest dist]
  let ?em = "filter (emits gf) its"
  show ?case
  proof (cases "emits gf it")
    case False
    with step have "st1 = st" by (simp add: filterGrid_below)
    with IH False show ?thesis by simp
  next
    case True
    note s = filterGrid_layout_step [OF assms(1) step True]
    have notin: "unat (fst it) \<notin> (\<lambda>c. unat (fst c)) ` set ?em"
    proof
      assume "unat (fst it) \<in> (\<lambda>c. unat (fst c)) ` set ?em"
      then obtain c where "c \<in> set its" "unat (fst c) = unat (fst it)" by auto
      then have "fst it \<in> fst ` set its" by (metis imageI word_unat_eq_iff)
      with fresh show False by simp
    qed
    have nv: "num_voxels st' = num_voxels st + length (filter (emits gf) (it # its))"
      using IH s(3) True by simp
    have len: "length (leaf_layout st') = length (leaf_layout st)"
      using IH s(2) by simp
    have at: "\<forall>j < length (filter (emits gf) (it # its)).
          unat (fst (filter (emits gf) (it # its) ! j)) < length (leaf_layout st)
          \<and> leaf_layout st' ! unat (fst (filter (emits gf) (it # its) ! j))
              = word_of_nat (num_voxels st + j)"
    proof (intro allI impI)
      fix j assume j: "j < length (filter (emits gf) (it # its))"
      show "unat (fst (filter (emits gf) (it # its) ! j)) < length (leaf_layout st)
          \<and> leaf_layout st' ! unat (fst (filter (emits gf) (it # its) ! j))
              = word_of_nat (num_voxels st + j)"
      proof (cases j)
        case 0
        have "leaf_layout st' ! unat (fst it) = leaf_layout st1 ! unat (fst it)"
          using IH notin by blast
        also have "\<dots> = word_of_nat (num_voxels st)"
          using s(1,2) by simp
        finally show ?thesis using 0 True s(1) by simp
      next
        case (Suc j')
        with j True have j': "j' < length ?em" by simp
        with IH have "unat (fst (?em ! j')) < length (leaf_layout st1)"
          and "leaf_layout st' ! unat (fst (?em ! j')) = word_of_nat (num_voxels st1 + j')"
          by blast+
        then show ?thesis using Suc True s(2,3) by simp
      qed
    qed
    have other: "\<forall>i. i \<notin> (\<lambda>c. unat (fst c)) ` set (filter (emits gf) (it # its))
          \<longrightarrow> leaf_layout st' ! i = leaf_layout st ! i"
    proof (intro allI impI)
      fix i assume i: "i \<notin> (\<lambda>c. unat (fst c)) ` set (filter (emits gf) (it # its))"
      with True have ne: "i \<noteq> unat (fst it)" and i': "i \<notin> (\<lambda>c. unat (fst c)) ` set ?em"
        by auto
      from IH i' have "leaf_layout st' ! i = leaf_layout st1 ! i" by blast
      also have "\<dots> = leaf_layout st ! i" using s(2) ne by simp
      finally show "leaf_layout st' ! i = leaf_layout st ! i" .
    qed
    from nv len at other show ?thesis by blast
  qed
qed


lemma resize_fill_leaf_layout:
  "resize_leaf_layout n (fill_leaf_layout n L) = replicate n (- 1)"
proof (cases "n \<le> length L")
  case True
  then show ?thesis
    by (simp add: resize_leaf_layout_def fill_leaf_layout_def min_def)
next
  case False
  then have "min n (length L) = length L" by simp
  then show ?thesis
    using False
    by (simp add: resize_leaf_layout_def fill_leaf_layout_def replicate_add [symmetric])
qed

lemma setUp_ready:
  assumes "setUp gf env st0 = Some (Returned True, w, st1)"
  shows "num_voxels st1 = 0" and "grid st1 = grid st0"
    and "inverse_leaf_size st1 = inverse_leaf_size st0"
    and "getSaveLeafLayout gf \<Longrightarrow>
          leaf_layout st1
            = replicate (unat (scast (c0 (div_b st1) * c1 (div_b st1) * c2 (div_b st1)) :: size_t))
                (- 1)
          \<and> unat (scast (c0 (div_b st1) * c1 (div_b st1) * c2 (div_b st1)) :: size_t)
              \<le> layout_capacity env"
  using assms
  by (auto simp add: setUp_def Let_def resize_fill_leaf_layout
      split: Option.bind_splits option.splits if_splits)

lemma uint_word_of_int_64:
  "0 \<le> k \<Longrightarrow> k < 2 ^ 64 \<Longrightarrow> uint (word_of_int k :: size_t) = k"
  by (simp add: uint_word_of_int take_bit_int_eq_self)

lemma uint_word_of_int_64_neg:
  assumes "- (2 ^ 64) \<le> k" "k < 0"
  shows "uint (word_of_int k :: size_t) = k + 2 ^ 64"
proof -
  have "(k + 2 ^ 64) mod 2 ^ 64 = k + 2 ^ 64"
    using assms by (intro mod_pos_pos_trivial) simp_all
  then have "k mod 2 ^ 64 = k + 2 ^ 64" by simp
  then show ?thesis by (simp add: uint_word_of_int take_bit_eq_mod)
qed

lemma scast_int_range:
  fixes v :: int32
  shows "unat (scast v :: size_t) < 2 ^ 31 \<or> 2 ^ 61 \<le> unat (scast v :: size_t)"
proof (cases "0 \<le> sint v")
  case True
  have lt: "sint v < 2 ^ 31" using sint_lt [of v] by simp
  with True have "uint (word_of_int (sint v) :: size_t) = sint v"
    by (intro uint_word_of_int_64) simp_all
  then have "unat (scast v :: size_t) = nat (sint v)"
    unfolding scast_eq unat_eq_nat_uint by (rule arg_cong)
  moreover have "nat (sint v) < 2 ^ 31" using lt True by (simp add: nat_less_iff)
  ultimately show ?thesis by simp
next
  case False
  have ge: "- (2 ^ 31) \<le> sint v" using sint_ge [of v] by simp
  with False have "uint (word_of_int (sint v) :: size_t) = sint v + 2 ^ 64"
    by (intro uint_word_of_int_64_neg) simp_all
  then have "unat (scast v :: size_t) = nat (sint v + 2 ^ 64)"
    unfolding scast_eq unat_eq_nat_uint by (rule arg_cong)
  moreover have "2 ^ 61 \<le> nat (sint v + 2 ^ 64)" using ge by (simp add: le_nat_iff)
  ultimately show ?thesis by simp
qed

lemma addPointToGrid_frame:
  assumes "addPointToGrid gf pt st = Some st'"
  shows "\<exists>g. st' = st\<lparr>grid := g\<rparr> \<and> (distinct (map fst (grid st)) \<longrightarrow> distinct (map fst g))"
  using assms
  by (auto simp add: addPointToGrid_def Let_def distinct_update
      split: Option.bind_splits if_splits intro: exI [of _ "grid st"])

lemma addPointsToGrid_frame:
  assumes "addPointsToGrid gf pts st = Some st'"
  shows "\<exists>g. st' = st\<lparr>grid := g\<rparr> \<and> (distinct (map fst (grid st)) \<longrightarrow> distinct (map fst g))"
  using assms
proof (induction pts arbitrary: st)
  case Nil
  then show ?case by (auto intro: exI [of _ "grid st"])
next
  case (Cons pt pts)
  from Cons.prems obtain st1 where a: "addPointToGrid gf pt st = Some st1"
    and b: "addPointsToGrid gf pts st1 = Some st'"
    by (auto split: Option.bind_splits)
  from addPointToGrid_frame [OF a] obtain g1 where
    g1: "st1 = st\<lparr>grid := g1\<rparr>" "distinct (map fst (grid st)) \<longrightarrow> distinct (map fst g1)"
    by blast
  from Cons.IH [OF b] obtain g where
    g: "st' = st1\<lparr>grid := g\<rparr>" "distinct (map fst (grid st1)) \<longrightarrow> distinct (map fst g)"
    by blast
  from g1 g show ?case by (auto intro: exI [of _ g])
qed

lemma sint_word_of_nat_small:
  assumes "j < 2 ^ 31"
  shows "sint (word_of_nat j :: int32) = int j"
proof -
  have "int j < 2 ^ 31" using assms by (metis of_nat_less_iff of_nat_numeral of_nat_power)
  then show ?thesis
    by (simp add: signed_of_nat signed_take_bit_int_eq_self)
qed


lemma distinct_keys_length:
  assumes "distinct (map fst (cells :: (size_t \<times> Voxel) list))"
    and "\<forall>j < length cells. unat (fst (cells ! j)) < n"
  shows "length cells \<le> n"
proof -
  have inj: "inj_on unat (set (map fst cells))"
    by (rule inj_onI) (simp add: word_unat_eq_iff)
  have d: "distinct (map (\<lambda>c. unat (fst c)) cells)"
    using assms(1) distinct_map [of unat "map fst cells"] inj by (simp add: comp_def)
  have sub: "set (map (\<lambda>c. unat (fst c)) cells) \<subseteq> {..<n}"
    using assms(2) by (fastforce simp add: in_set_conv_nth)
  have "length cells = card (set (map (\<lambda>c. unat (fst c)) cells))"
    using distinct_card [OF d] by simp
  also have "\<dots> \<le> card {..<n}" using sub by (intro card_mono) simp_all
  finally show ?thesis by simp
qed

text \<open>
  The leaf layout after the three phases of a call that saves it, when \<^verbatim>\<open>setUp\<close> has
  returned true and binning and emission are defined.
\<close>

lemma layout_after_emission:
  assumes save: "getSaveLeafLayout gf"
    and su: "setUp gf env st0 = Some (Returned True, w, st1)"
    and cap: "layout_capacity env < 2 ^ 61"
    and keys: "distinct (map fst (grid st0))"
    and bin: "addPointsToGrid gf input st1 = Some st2"
    and em: "filterGridAll gf (grid st2) st2 = Some (output, st3)"
  shows "(\<forall>i < length (leaf_layout st3). leaf_layout st3 ! i \<noteq> - 1 \<longrightarrow>
            0 \<le> sint (leaf_layout st3 ! i) \<and> sint (leaf_layout st3 ! i) < int (length output))
       \<and> (\<forall>j < length output. \<exists>!i. i < length (leaf_layout st3)
             \<and> sint (leaf_layout st3 ! i) = int j)
       \<and> num_voxels st3 = length output"
proof -
  let ?N = "unat (scast (c0 (div_b st1) * c1 (div_b st1) * c2 (div_b st1)) :: size_t)"
  let ?L = "leaf_layout st3"
  let ?em = "filter (emits gf) (grid st2)"
  let ?k = "length output"
  have L1: "leaf_layout st1 = replicate ?N (- 1)" and capN: "?N \<le> layout_capacity env"
    using setUp_ready(4) [OF su save] by simp_all
  have N: "?N < 2 ^ 31"
    using scast_int_range [of "c0 (div_b st1) * c1 (div_b st1) * c2 (div_b st1)"] capN cap
    by linarith
  from addPointsToGrid_frame [OF bin] obtain g where
    st2: "st2 = st1\<lparr>grid := g\<rparr>" and dg: "distinct (map fst (grid st1)) \<longrightarrow> distinct (map fst g)"
    by blast
  have d2: "distinct (map fst (grid st2))"
    using dg keys setUp_ready(2) [OF su] st2 by simp
  have L2: "leaf_layout st2 = replicate ?N (- 1)" and nv2: "num_voxels st2 = 0"
    using st2 L1 setUp_ready(1) [OF su] by simp_all
  have k: "?k = length ?em" using filterGridAll_length [OF em] .
  note lay = filterGridAll_layout [OF save em d2]
  have nv3: "num_voxels st3 = ?k" using lay nv2 k by simp
  have len: "length ?L = ?N" using lay L2 by simp
  have at: "\<And>j. j < ?k \<Longrightarrow> unat (fst (?em ! j)) < ?N
      \<and> ?L ! unat (fst (?em ! j)) = word_of_nat j"
    using lay L2 nv2 k by simp
  have other: "\<And>i. i < ?N \<Longrightarrow> i \<notin> (\<lambda>c. unat (fst c)) ` set ?em \<Longrightarrow> ?L ! i = - 1"
    using lay L2 by simp
  have dem: "distinct (map fst ?em)" using d2 by (simp add: distinct_map_filter)
  have kN: "?k \<le> ?N"
    using distinct_keys_length [OF dem, of ?N] at k by simp
  have small: "\<And>j. j < ?k \<Longrightarrow> sint (word_of_nat j :: int32) = int j"
    using kN N by (intro sint_word_of_nat_small) simp
  have found: "\<And>i. i < ?N \<Longrightarrow> ?L ! i \<noteq> - 1 \<Longrightarrow>
      \<exists>j < ?k. i = unat (fst (?em ! j)) \<and> ?L ! i = word_of_nat j"
  proof -
    fix i assume i: "i < ?N" and ne: "?L ! i \<noteq> - 1"
    with other have "i \<in> (\<lambda>c. unat (fst c)) ` set ?em" by blast
    then obtain c where c: "c \<in> set ?em" "i = unat (fst c)" by blast
    from c(1) obtain j where "j < length ?em" "?em ! j = c"
      unfolding in_set_conv_nth by blast
    with c(2) have j: "j < length ?em" "i = unat (fst (?em ! j))" by simp_all
    with at k show "\<exists>j < ?k. i = unat (fst (?em ! j)) \<and> ?L ! i = word_of_nat j"
      by auto
  qed
  have a: "\<forall>i < length ?L. ?L ! i \<noteq> - 1 \<longrightarrow>
            0 \<le> sint (?L ! i) \<and> sint (?L ! i) < int ?k"
  proof (intro allI impI)
    fix i assume "i < length ?L" "?L ! i \<noteq> - 1"
    with found len obtain j where "j < ?k" "?L ! i = word_of_nat j" by auto
    with small show "0 \<le> sint (?L ! i) \<and> sint (?L ! i) < int ?k" by simp
  qed
  have b: "\<forall>j < ?k. \<exists>!i. i < length ?L \<and> sint (?L ! i) = int j"
  proof (intro allI impI)
    fix j assume j: "j < ?k"
    show "\<exists>!i. i < length ?L \<and> sint (?L ! i) = int j"
    proof (rule ex1I [of _ "unat (fst (?em ! j))"])
      show "unat (fst (?em ! j)) < length ?L \<and> sint (?L ! unat (fst (?em ! j))) = int j"
        using at [OF j] small [OF j] len by simp
    next
      fix i assume i: "i < length ?L \<and> sint (?L ! i) = int j"
      then have "?L ! i \<noteq> - 1" by auto
      with found i len obtain j' where j': "j' < ?k" "i = unat (fst (?em ! j'))"
        "?L ! i = word_of_nat j'" by auto
      with small [OF j'(1)] i have "j' = j" by simp
      with j' show "i = unat (fst (?em ! j))" by simp
    qed
  qed
  from a b nv3 show ?thesis by blast
qed


section \<open>Properties of the hash\<close>

lemma int_of_float_int:
  "int_of_float (real_of_int n) = Some v \<Longrightarrow> v = word_of_int n \<and> - (2 ^ 31) \<le> n \<and> n < 2 ^ 31"
  by (auto simp add: int_of_float_def trunc_def split: if_splits)

lemma floor_cast_int_Some:
  assumes "floor_cast_int v = Some r"
  shows "c0 r = word_of_int \<lfloor>c0 v\<rfloor> \<and> - (2 ^ 31) \<le> \<lfloor>c0 v\<rfloor> \<and> \<lfloor>c0 v\<rfloor> < 2 ^ 31"
    and "c1 r = word_of_int \<lfloor>c1 v\<rfloor> \<and> - (2 ^ 31) \<le> \<lfloor>c1 v\<rfloor> \<and> \<lfloor>c1 v\<rfloor> < 2 ^ 31"
    and "c2 r = word_of_int \<lfloor>c2 v\<rfloor> \<and> - (2 ^ 31) \<le> \<lfloor>c2 v\<rfloor> \<and> \<lfloor>c2 v\<rfloor> < 2 ^ 31"
  using assms
  by (auto simp add: floor_cast_int_def split: Option.bind_splits dest!: int_of_float_int)

lemma sint_word_of_int_32:
  "- (2 ^ 31) \<le> n \<Longrightarrow> n < 2 ^ 31 \<Longrightarrow> sint (word_of_int n :: int32) = n"
  by (simp add: sint_sbintrunc' signed_take_bit_int_eq_self)

lemma scast_word_of_int_32:
  assumes "- (2 ^ 31) \<le> n" "n < 2 ^ 31"
  shows "(scast (word_of_int n :: int32) :: size_t) = word_of_int n"
  unfolding scast_eq sint_word_of_int_32 [OF assms] ..

lemma setUp_fields:
  assumes "setUp gf env st0 = Some (Returned True, w, st)"
  shows "\<exists>mnb mxb.
      floor_cast_int (vec4_zip (*) (fst (getMinMax3D env)) (inverse_leaf_size st0)) = Some mnb
    \<and> floor_cast_int (vec4_zip (*) (snd (getMinMax3D env)) (inverse_leaf_size st0)) = Some mxb
    \<and> min_b st = mnb \<and> max_b st = mxb
    \<and> div_b st = vec4_zip (\<lambda>a b. a - b + 1) mxb mnb
    \<and> divb_mul st = Vec4 1 (c0 (div_b st)) (c0 (div_b st) * c1 (div_b st)) 0
    \<and> inverse_leaf_size st = inverse_leaf_size st0"
  using assms
  by (auto simp add: setUp_def Let_def split: Option.bind_splits option.splits if_splits)

lemma floor_scaled_mono:
  fixes a b s :: real
  assumes "a \<le> b" "0 < s"
  shows "\<lfloor>a * s\<rfloor> \<le> \<lfloor>b * s\<rfloor>"
  using assms by (intro floor_mono mult_right_mono) simp_all

lemma linear_index_bound:
  fixes ox oy oz Dx Dy Dz :: int
  assumes "0 \<le> ox" "ox < Dx" "0 \<le> oy" "oy < Dy" "0 \<le> oz" "oz < Dz"
  shows "0 \<le> ox + oy * Dx + oz * (Dx * Dy)" "ox + oy * Dx + oz * (Dx * Dy) < Dx * Dy * Dz"
proof -
  have Dx: "0 < Dx" and Dy: "0 < Dy" using assms by linarith+
  show "0 \<le> ox + oy * Dx + oz * (Dx * Dy)"
    using assms Dx Dy by (intro add_nonneg_nonneg mult_nonneg_nonneg) simp_all
  have "oy * Dx \<le> (Dy - 1) * Dx"
    using assms Dx by (intro mult_right_mono) simp_all
  moreover have "oz * (Dx * Dy) \<le> (Dz - 1) * (Dx * Dy)"
    using assms Dx Dy by (intro mult_right_mono) simp_all
  ultimately have "ox + oy * Dx + oz * (Dx * Dy) \<le> (Dx - 1) + (Dy - 1) * Dx + (Dz - 1) * (Dx * Dy)"
    using assms by linarith
  also have "\<dots> = Dx * Dy * Dz - 1" by (simp add: algebra_simps)
  finally show "ox + oy * Dx + oz * (Dx * Dy) < Dx * Dy * Dz" by simp
qed


lemma axis_offset:
  fixes c :: int32
  assumes "c = word_of_int a" "- (2 ^ 31) \<le> a" "a < 2 ^ 31" "a \<le> p"
    and "- (2 ^ 24) \<le> a" "a \<le> 2 ^ 24" "p - a \<le> 2 ^ 24"
  shows "size_t_of_float (real_of_int (round_float (p - round_float (sint c))))
    = Some (word_of_int (p - a))"
proof -
  have "sint c = a" using assms(1-3) by (simp add: sint_word_of_int_32)
  moreover have "round_float a = a" using assms(5,6) by (intro round_float_exact) simp
  moreover have "round_float (p - a) = p - a"
    using assms(4,7) by (intro round_float_exact) simp
  moreover have "size_t_of_float (real_of_int (p - a)) = Some (word_of_int (p - a))"
    using assms(4,7) by (intro size_t_of_float_int) simp_all
  ultimately show ?thesis by simp
qed

lemma hash_in_division_range:
  assumes su: "setUp gf env st0 = Some (Returned True, w, st)"
    and mm: "getMinMax3D env = (min_p, max_p)"
    and il: "inverse_leaf_size st0 = ils"
    and pos: "0 < c0 ils" "0 < c1 ils" "0 < c2 ils"
    and inx: "c0 min_p \<le> px pt" "px pt \<le> c0 max_p"
    and iny: "c1 min_p \<le> py pt" "py pt \<le> c1 max_p"
    and inz: "c2 min_p \<le> pz pt" "pz pt \<le> c2 max_p"
    and nowrap: "division_count (c0 min_p) (c0 max_p) (c0 ils)
                 * division_count (c1 min_p) (c1 max_p) (c1 ils) \<le> 2 ^ 31 - 1"
    and exact: "float_exact_axis (c0 min_p) (c0 max_p) (c0 ils)"
               "float_exact_axis (c1 min_p) (c1 max_p) (c1 ils)"
               "float_exact_axis (c2 min_p) (c2 max_p) (c2 ils)"
  shows "\<exists>h. hashPoint st pt = Some h
    \<and> uint h = cell_offset (c0 min_p) (px pt) (c0 ils)
             + cell_offset (c1 min_p) (py pt) (c1 ils) * division_count (c0 min_p) (c0 max_p) (c0 ils)
             + cell_offset (c2 min_p) (pz pt) (c2 ils)
               * (division_count (c0 min_p) (c0 max_p) (c0 ils)
                  * division_count (c1 min_p) (c1 max_p) (c1 ils))
    \<and> 0 \<le> uint h
    \<and> uint h < division_count (c0 min_p) (c0 max_p) (c0 ils)
               * division_count (c1 min_p) (c1 max_p) (c1 ils)
               * division_count (c2 min_p) (c2 max_p) (c2 ils)"
proof -
  let ?ax = "\<lfloor>c0 min_p * c0 ils\<rfloor>" and ?ay = "\<lfloor>c1 min_p * c1 ils\<rfloor>" and ?az = "\<lfloor>c2 min_p * c2 ils\<rfloor>"
  let ?bx = "\<lfloor>c0 max_p * c0 ils\<rfloor>" and ?by = "\<lfloor>c1 max_p * c1 ils\<rfloor>" and ?bz = "\<lfloor>c2 max_p * c2 ils\<rfloor>"
  let ?qx = "\<lfloor>px pt * c0 ils\<rfloor>" and ?qy = "\<lfloor>py pt * c1 ils\<rfloor>" and ?qz = "\<lfloor>pz pt * c2 ils\<rfloor>"
  let ?Dx = "division_count (c0 min_p) (c0 max_p) (c0 ils)"
  let ?Dy = "division_count (c1 min_p) (c1 max_p) (c1 ils)"
  let ?Dz = "division_count (c2 min_p) (c2 max_p) (c2 ils)"
  let ?ox = "cell_offset (c0 min_p) (px pt) (c0 ils)"
  let ?oy = "cell_offset (c1 min_p) (py pt) (c1 ils)"
  let ?oz = "cell_offset (c2 min_p) (pz pt) (c2 ils)"
  from setUp_fields [OF su] mm il obtain mnb mxb where
    mn: "floor_cast_int (vec4_zip (*) min_p ils) = Some mnb"
    and mx: "floor_cast_int (vec4_zip (*) max_p ils) = Some mxb"
    and st: "min_b st = mnb" "div_b st = vec4_zip (\<lambda>a b. a - b + 1) mxb mnb"
      "divb_mul st = Vec4 1 (c0 (div_b st)) (c0 (div_b st) * c1 (div_b st)) 0"
      "inverse_leaf_size st = ils"
    by auto
  have a: "c0 mnb = word_of_int ?ax" "- (2 ^ 31) \<le> ?ax" "?ax < 2 ^ 31"
    "c1 mnb = word_of_int ?ay" "- (2 ^ 31) \<le> ?ay" "?ay < 2 ^ 31"
    "c2 mnb = word_of_int ?az" "- (2 ^ 31) \<le> ?az" "?az < 2 ^ 31"
    using floor_cast_int_Some [OF mn] by (simp_all add: vec4_zip_def)
  have b: "c0 mxb = word_of_int ?bx" "- (2 ^ 31) \<le> ?bx" "?bx < 2 ^ 31"
    "c1 mxb = word_of_int ?by" "- (2 ^ 31) \<le> ?by" "?by < 2 ^ 31"
    "c2 mxb = word_of_int ?bz" "- (2 ^ 31) \<le> ?bz" "?bz < 2 ^ 31"
    using floor_cast_int_Some [OF mx] by (simp_all add: vec4_zip_def)
  have lo: "?ax \<le> ?qx" "?ay \<le> ?qy" "?az \<le> ?qz"
    using inx(1) iny(1) inz(1) pos by (simp_all add: floor_scaled_mono)
  have hi: "?qx \<le> ?bx" "?qy \<le> ?by" "?qz \<le> ?bz"
    using inx(2) iny(2) inz(2) pos by (simp_all add: floor_scaled_mono)
  have o: "0 \<le> ?ox" "?ox < ?Dx" "0 \<le> ?oy" "?oy < ?Dy" "0 \<le> ?oz" "?oz < ?Dz"
    using lo hi by (simp_all add: cell_offset_def division_count_def)
  have Dpos: "1 \<le> ?Dx" "1 \<le> ?Dy" "1 \<le> ?Dz" using o by linarith+
  have "?bz - ?az + 1 \<le> (2 ^ 31 - 1) + 2 ^ 31 + 1" using a(8) b(9) by linarith
  then have Dz: "?Dz \<le> 2 ^ 32" by (simp add: division_count_def)
  have "?Dx * 1 \<le> ?Dx * ?Dy" using Dpos by (intro mult_left_mono) simp_all
  with nowrap have Dx: "?Dx < 2 ^ 31" by simp
  have "1 * ?Dy \<le> ?Dx * ?Dy" using Dpos by (intro mult_right_mono) simp_all
  with nowrap have Dy: "?Dy < 2 ^ 31" by simp
  have Dxy: "?Dx * ?Dy < 2 ^ 31" using nowrap by simp
  have db0: "c0 (div_b st) = word_of_int ?Dx"
    and db1: "c1 (div_b st) = word_of_int ?Dy"
    by (simp_all add: st(2) vec4_zip_def a b division_count_def)
  have m1: "(scast (c0 (div_b st)) :: size_t) = word_of_int ?Dx"
    unfolding db0 using Dpos Dx by (intro scast_word_of_int_32) simp_all
  have "c0 (div_b st) * c1 (div_b st) = word_of_int (?Dx * ?Dy)"
    by (simp add: db0 db1)
  moreover have "0 \<le> ?Dx * ?Dy" using Dpos by simp
  ultimately have m2: "(scast (c0 (div_b st) * c1 (div_b st)) :: size_t) = word_of_int (?Dx * ?Dy)"
    using Dxy scast_word_of_int_32 [of "?Dx * ?Dy"] by simp
  have ex: "- (2 ^ 24) \<le> ?ax" "?bx \<le> 2 ^ 24" "?bx - ?ax \<le> 2 ^ 24"
    "- (2 ^ 24) \<le> ?ay" "?by \<le> 2 ^ 24" "?by - ?ay \<le> 2 ^ 24"
    "- (2 ^ 24) \<le> ?az" "?bz \<le> 2 ^ 24" "?bz - ?az \<le> 2 ^ 24"
    using exact by (simp_all add: float_exact_axis_def)
  have ax24: "?ax \<le> 2 ^ 24" "?ay \<le> 2 ^ 24" "?az \<le> 2 ^ 24"
    using lo hi ex(2,5,8) by linarith+
  have off24: "?qx - ?ax \<le> 2 ^ 24" "?qy - ?ay \<le> 2 ^ 24" "?qz - ?az \<le> 2 ^ 24"
    using hi ex(3,6,9) by linarith+
  have i0: "size_t_of_float (real_of_int (round_float (?qx - round_float (sint (c0 mnb)))))
      = Some (word_of_int ?ox)"
    unfolding cell_offset_def using a(1-3) lo(1) ex(1) ax24(1) off24(1) by (rule axis_offset)
  have i1: "size_t_of_float (real_of_int (round_float (?qy - round_float (sint (c1 mnb)))))
      = Some (word_of_int ?oy)"
    unfolding cell_offset_def using a(4-6) lo(2) ex(4) ax24(2) off24(2) by (rule axis_offset)
  have i2: "size_t_of_float (real_of_int (round_float (?qz - round_float (sint (c2 mnb)))))
      = Some (word_of_int ?oz)"
    unfolding cell_offset_def using a(7-9) lo(3) ex(7) ax24(3) off24(3) by (rule axis_offset)
  let ?S = "?ox + ?oy * ?Dx + ?oz * (?Dx * ?Dy)"
  have hp: "hashPoint st pt = Some (word_of_int ?S)"
    unfolding hashPoint_def st(1,3,4) i0 i1 i2 by (simp add: m1 m2)
  note lb = linear_index_bound [OF o]
  have "?Dx * ?Dy * ?Dz \<le> 2 ^ 31 * 2 ^ 32"
    using Dxy Dz Dpos by (intro mult_mono) simp_all
  with lb(2) have "?S < 2 ^ 64" by simp
  with lb(1) have u: "uint (word_of_int ?S :: size_t) = ?S"
    by (intro uint_word_of_int_64)
  show ?thesis
  proof (intro exI [of _ "word_of_int ?S"] conjI)
    show "hashPoint st pt = Some (word_of_int ?S)" by (rule hp)
    show "uint (word_of_int ?S :: size_t) = ?S" by (rule u)
    show "0 \<le> uint (word_of_int ?S :: size_t)" unfolding u by (rule lb(1))
    show "uint (word_of_int ?S :: size_t) < ?Dx * ?Dy * ?Dz" unfolding u by (rule lb(2))
  qed
qed






text \<open>
  Outside that range the \<^verbatim>\<open>float\<close> subtraction rounds. On a cloud whose x coordinates
  span -0.5 to 16777218 at leaf size 1 the grid has the 16777220 cells from -1 to 16777218;
  for the point at x = 16777218 the offset 16777219 is no \<^verbatim>\<open>float\<close>, it is rounded to
  16777220, and the hash equals the number of cells.
\<close>

lemma round_float_16777219: "round_float 16777219 = 16777220"
proof -
  have "float_ulp 16777219 = 2" using float_ulp_binade [of 3 24] by simp
  then show ?thesis by (simp add: round_float_def round_to_even_def)
qed

lemma hashPoint_rounds_offset:
  "setUp GridFilterBase_init edge_env unit_grid = Some (Returned True, [], edge_ready)
   \<and> hashPoint edge_ready (PointXYZ 16777218 0 0) = Some 16777220
   \<and> division_count (- 1 / 2) 16777218 1 * division_count 0 0 1 * division_count 0 0 1
       = 16777220"
proof -
  have a: "setUp GridFilterBase_init edge_env unit_grid = Some (Returned True, [], edge_ready)"
    unfolding setUp_def Let_def unit_grid_eq edge_ready_def
    by (simp add: edge_env_def conv_defs VoxelStructT_init_def GridFilterBase_init_def
        checkIfOverflow_def max_size_def round_float_16777219 ceiling_of_int [of "- 1", simplified])
  have b: "hashPoint edge_ready (PointXYZ 16777218 0 0) = Some 16777220"
    unfolding edge_ready_def unit_grid_eq
    by (simp add: hashPoint_def PointXYZ_def conv_defs VoxelStructT_init_def
        round_float_16777219)
  have c: "division_count (- 1 / 2) 16777218 1 * division_count 0 0 1 * division_count 0 0 1
      = 16777220"
    by (simp add: division_count_def)
  from a b c show ?thesis by simp
qed

text \<open>
  Where the product of the division counts does not fit an \<^verbatim>\<open>int\<close>, the overflow check,
  which compares with the largest \<^verbatim>\<open>std::size_t\<close>, still passes, and the multiplier
  \<^verbatim>\<open>div_b_[0] * div_b_[1]\<close> wraps: on a grid of 65536 x 32768 x 2 cells it is \<open>- 2 ^ 31\<close>, and
  the points of the upper z layer hash far outside the \<open>2 ^ 32\<close> cells.
\<close>

lemma hashPoint_multiplier_wraps:
  "setUp GridFilterBase_init wide_env unit_grid = Some (Returned True, [], wide_ready)
   \<and> checkIfOverflow wide_ready (Vec4 0 0 0 1) (Vec4 65535 32767 1 1) = Some (Some 4294967296)
   \<and> hashPoint wide_ready (PointXYZ 65535 32767 1) = Some 18446744073709551615
   \<and> hashPoint wide_ready (PointXYZ 0 0 1) = Some 18446744071562067968"
proof -
  have a: "setUp GridFilterBase_init wide_env unit_grid = Some (Returned True, [], wide_ready)"
    unfolding setUp_def Let_def unit_grid_eq wide_ready_def
    by (simp add: wide_env_def conv_defs VoxelStructT_init_def GridFilterBase_init_def
        checkIfOverflow_def max_size_def)
  have b: "checkIfOverflow wide_ready (Vec4 0 0 0 1) (Vec4 65535 32767 1 1)
      = Some (Some 4294967296)"
    unfolding wide_ready_def unit_grid_eq
    by (simp add: checkIfOverflow_def conv_defs VoxelStructT_init_def max_size_def)
  have c: "hashPoint wide_ready (PointXYZ 65535 32767 1) = Some 18446744073709551615"
    unfolding wide_ready_def unit_grid_eq
    by (simp add: hashPoint_def PointXYZ_def conv_defs VoxelStructT_init_def)
  have d: "hashPoint wide_ready (PointXYZ 0 0 1) = Some 18446744071562067968"
    unfolding wide_ready_def unit_grid_eq
    by (simp add: hashPoint_def PointXYZ_def conv_defs VoxelStructT_init_def)
  from a b c d show ?thesis by simp
qed

section \<open>A filter call whose cell count overflows\<close>






section \<open>Properties of the aggregation\<close>

lemma hashPoint_grid [simp]: "hashPoint (st\<lparr>grid := g\<rparr>) pt = hashPoint st pt"
  by (simp add: hashPoint_def)

lemma field_filter_skips_grid [simp]:
  "field_filter_skips gf (st\<lparr>grid := g\<rparr>) pt = field_filter_skips gf st pt"
  by (cases "field_at pt (filter_field_idx st)") (simp_all add: field_filter_skips_def)

lemma cell_points_grid [simp]: "cell_points gf (st\<lparr>grid := g\<rparr>) pts h = cell_points gf st pts h"
  by (simp add: cell_points_def)

lemma addPointToGrid_cases:
  assumes "addPointToGrid gf pt st = Some st1"
  shows "(field_filter_skips gf st pt = Some True \<and> st1 = st)
    \<or> (field_filter_skips gf st pt = Some False
       \<and> (\<exists>k. hashPoint st pt = Some k
            \<and> st1 = st\<lparr>grid := AList.update k (add_to_voxel gf (grid_at (grid st) k) pt) (grid st)\<rparr>))"
  using assms
  by (auto simp add: addPointToGrid_def add_to_voxel_def Let_def
      split: Option.bind_splits if_splits)

lemma grid_at_update:
  "grid_at (AList.update k v g) h = (if h = k then v else grid_at g h)"
  by (simp add: grid_at_def update_conv')

lemma map_of_update_None:
  "map_of (AList.update k v g) h = None \<longleftrightarrow> h \<noteq> k \<and> map_of g h = None"
  by (simp add: update_conv')

lemma addPointsToGrid_cells:
  assumes "addPointsToGrid gf pts st = Some st'"
  shows "grid_at (grid st') h
         = foldl (add_to_voxel gf) (grid_at (grid st) h) (cell_points gf st pts h)
    \<and> (map_of (grid st') h = None
         \<longleftrightarrow> map_of (grid st) h = None \<and> cell_points gf st pts h = [])"
  using assms
proof (induction pts arbitrary: st)
  case Nil
  then show ?case by (simp add: cell_points_def)
next
  case (Cons pt pts)
  from Cons.prems obtain st1 where a: "addPointToGrid gf pt st = Some st1"
    and b: "addPointsToGrid gf pts st1 = Some st'"
    by (auto split: Option.bind_splits)
  note IH = Cons.IH [OF b]
  from addPointToGrid_cases [OF a] show ?case
  proof (elim disjE conjE exE)
    assume skip: "field_filter_skips gf st pt = Some True" and st1: "st1 = st"
    have "cell_points gf st (pt # pts) h = cell_points gf st pts h"
      using skip by (simp add: cell_points_def)
    with IH st1 show ?thesis by simp
  next
    fix k
    assume ns: "field_filter_skips gf st pt = Some False"
      and hk: "hashPoint st pt = Some k"
      and st1: "st1 = st\<lparr>grid := AList.update k (add_to_voxel gf (grid_at (grid st) k) pt) (grid st)\<rparr>"
    have cp1: "cell_points gf st1 pts h = cell_points gf st pts h"
      by (simp add: st1)
    show ?thesis
    proof (cases "h = k")
      case True
      have "cell_points gf st (pt # pts) h = pt # cell_points gf st pts h"
        using ns hk True by (simp add: cell_points_def)
      with IH cp1 True show ?thesis
        by (simp add: st1 grid_at_update map_of_update_None)
    next
      case False
      have "cell_points gf st (pt # pts) h = cell_points gf st pts h"
        using ns hk False by (auto simp add: cell_points_def)
      with IH cp1 False show ?thesis
        by (simp add: st1 grid_at_update map_of_update_None)
    qed
  qed
qed

lemma foldl_add_to_voxel_num:
  "num_pt (foldl (add_to_voxel gf) v qs) = num_pt v + length qs"
  by (induction qs arbitrary: v) (simp_all add: add_to_voxel_def Let_def)


lemma foldl_add_to_voxel_centroid:
  "getDownsampleAllData gf \<Longrightarrow>
     centroid (foldl (add_to_voxel gf) v qs) = foldl CentroidPoint_add (centroid v) qs"
  by (induction qs arbitrary: v) (simp_all add: add_to_voxel_def Let_def)





lemma length_all_fields: "length (all_fields q) = 3 + length (aux q)"
  by (simp add: all_fields_def)

lemma filterGrid_geometry:
  assumes "emits gf cell" "\<not> getDownsampleAllData gf" "num_pt (snd cell) \<noteq> 0"
    and "getSaveLeafLayout gf \<Longrightarrow> unat (fst cell) < length (leaf_layout s)"
  shows "\<exists>s'. filterGrid gf cell s
    = Some (Some (PointT_default
          \<lparr>px := c0 (coord_centroid (snd cell)) / real (num_pt (snd cell)),
           py := c1 (coord_centroid (snd cell)) / real (num_pt (snd cell)),
           pz := c2 (coord_centroid (snd cell)) / real (num_pt (snd cell)),
           pw := c3 (coord_centroid (snd cell)) / real (num_pt (snd cell))\<rparr>), s')"
  using assms by (simp add: filterGrid_def emits_def Let_def)

lemma filterGrid_full:
  assumes "emits gf cell" "getDownsampleAllData gf"
    and "CentroidPoint_get (centroid (snd cell)) = Some p"
    and "getSaveLeafLayout gf \<Longrightarrow> unat (fst cell) < length (leaf_layout s)"
  shows "\<exists>s'. filterGrid gf cell s = Some (Some p, s')"
  using assms by (simp add: filterGrid_def emits_def Let_def)


lemma scenario_hash:
  "hashPoint (scenario_ready\<lparr>grid := g\<rparr>) (PointXYZ 0 0 0) = Some 0"
  "hashPoint (scenario_ready\<lparr>grid := g\<rparr>) (PointXYZ (1 / 100) (1 / 100) (1 / 100)) = Some 0"
  "hashPoint (scenario_ready\<lparr>grid := g\<rparr>) (PointXYZ 5 5 5) = Some 215"
  unfolding scenario_ready_def unit_grid_eq
  by (simp_all add: hashPoint_def PointXYZ_def conv_defs VoxelStructT_init_def)

lemma scenario_no_skip:
  "field_filter_skips scenario_settings (scenario_ready\<lparr>grid := g\<rparr>) pt = Some False"
  unfolding scenario_ready_def unit_grid_eq
  by (simp add: field_filter_skips_def VoxelStructT_init_def)

lemma scenario_ready_grid: "scenario_ready\<lparr>grid := []\<rparr> = scenario_ready"
  unfolding scenario_ready_def unit_grid_eq by (simp add: VoxelStructT_init_def)

lemma scenario_binned:
  "addPointsToGrid scenario_settings scenario_cloud scenario_ready
     = Some (scenario_ready\<lparr>grid := [(0, scenario_pair), (215, scenario_single)]\<rparr>)"
proof -
  let ?v1 = "Voxel_init\<lparr>coord_centroid := Vec4 0 0 0 1, num_pt := 1\<rparr>"
  have a: "addPointToGrid scenario_settings (PointXYZ 0 0 0) (scenario_ready\<lparr>grid := []\<rparr>)
      = Some (scenario_ready\<lparr>grid := [(0, ?v1)]\<rparr>)"
    unfolding addPointToGrid_def Let_def scenario_no_skip scenario_hash
    by (simp add: scenario_settings_def GridFilterBase_init_def getDownsampleAllData_def
        grid_at_def Voxel_init_def vec4_zip_def getVector4fMap_def PointXYZ_def)
  have b: "addPointToGrid scenario_settings (PointXYZ (1 / 100) (1 / 100) (1 / 100))
      (scenario_ready\<lparr>grid := [(0, ?v1)]\<rparr>)
      = Some (scenario_ready\<lparr>grid := [(0, scenario_pair)]\<rparr>)"
    unfolding addPointToGrid_def Let_def scenario_no_skip scenario_hash
    by (simp add: scenario_settings_def GridFilterBase_init_def getDownsampleAllData_def
        grid_at_def scenario_pair_def Voxel_init_def vec4_zip_def getVector4fMap_def
        PointXYZ_def)
  have c: "addPointToGrid scenario_settings (PointXYZ 5 5 5)
      (scenario_ready\<lparr>grid := [(0, scenario_pair)]\<rparr>)
      = Some (scenario_ready\<lparr>grid := [(0, scenario_pair), (215, scenario_single)]\<rparr>)"
    unfolding addPointToGrid_def Let_def scenario_no_skip scenario_hash
    by (simp add: scenario_settings_def GridFilterBase_init_def getDownsampleAllData_def
        grid_at_def scenario_single_def Voxel_init_def vec4_zip_def getVector4fMap_def
        PointXYZ_def)
  show ?thesis using a b c by (simp add: scenario_cloud_def scenario_ready_grid)
qed



section \<open>Two successive filter calls\<close>

lemma scenario_setUp:
  "setUp scenario_settings scenario_env (unit_grid\<lparr>grid := g\<rparr>)
     = Some (Returned True, [], scenario_ready\<lparr>grid := g\<rparr>)"
  unfolding setUp_def Let_def unit_grid_eq scenario_ready_def
  by (simp add: scenario_env_def scenario_settings_def conv_defs VoxelStructT_init_def
      GridFilterBase_init_def checkIfOverflow_def max_size_def)

lemma scenario_ready_again:
  "setUp scenario_settings scenario_env (scenario_ready\<lparr>grid := g\<rparr>)
     = Some (Returned True, [], scenario_ready\<lparr>grid := g\<rparr>)"
  unfolding setUp_def Let_def unit_grid_eq scenario_ready_def
  by (simp add: scenario_env_def scenario_settings_def conv_defs VoxelStructT_init_def
      GridFilterBase_init_def checkIfOverflow_def max_size_def)

lemma scenario_emitted:
  "filterGridAll scenario_settings [(0, scenario_pair), (215, scenario_single)]
      (scenario_ready\<lparr>grid := [(0, scenario_pair), (215, scenario_single)]\<rparr>)
    = Some ([PointXYZ (1 / 200) (1 / 200) (1 / 200)], scenario_once)"
  unfolding scenario_once_def scenario_ready_def unit_grid_eq
  by (simp add: filterGrid_def Let_def scenario_settings_def GridFilterBase_init_def
      getDownsampleAllData_def getMinimumPointsNumberPerVoxel_def scenario_pair_def
      scenario_single_def Voxel_init_def VoxelStructT_init_def PointXYZ_def PointT_default_def)

lemma scenario_applyFilter:
  "applyFilter scenario_settings scenario_env scenario_cloud unit_grid
    = Some (Output [PointXYZ (1 / 200) (1 / 200) (1 / 200)], [], scenario_once)"
proof -
  have ne: "scenario_cloud \<noteq> []" by (simp add: scenario_cloud_def)
  have su: "setUp scenario_settings scenario_env unit_grid
      = Some (Returned True, [], scenario_ready)"
    using scenario_setUp [of "[]"] scenario_ready_grid
    by (simp add: unit_grid_eq VoxelStructT_init_def)
  show ?thesis
    unfolding applyFilter_def using ne
    by (simp add: su scenario_binned scenario_emitted del: filterGridAll.simps)
qed

lemma scenario_once_setUp:
  "setUp scenario_settings scenario_env scenario_once = Some (Returned True, [], scenario_once)"
  unfolding scenario_once_def using scenario_ready_again by simp

lemma scenario_binned_again:
  "addPointsToGrid scenario_settings scenario_cloud scenario_once
     = Some (scenario_ready\<lparr>grid := scenario_rebinned\<rparr>)"
proof -
  let ?m = "Voxel_init\<lparr>coord_centroid := Vec4 (1 / 200) (1 / 200) (1 / 200) 1, num_pt := 2\<rparr>"
  let ?v1 = "Voxel_init\<lparr>coord_centroid := Vec4 (1 / 200) (1 / 200) (1 / 200) 2, num_pt := 3\<rparr>"
  let ?v2 = "Voxel_init\<lparr>coord_centroid := Vec4 (3 / 200) (3 / 200) (3 / 200) 3, num_pt := 4\<rparr>"
  let ?w = "Voxel_init\<lparr>coord_centroid := Vec4 10 10 10 2, num_pt := 2\<rparr>"
  have a: "addPointToGrid scenario_settings (PointXYZ 0 0 0)
        (scenario_ready\<lparr>grid := [(0, ?m), (215, scenario_single)]\<rparr>)
      = Some (scenario_ready\<lparr>grid := [(0, ?v1), (215, scenario_single)]\<rparr>)"
    unfolding addPointToGrid_def Let_def scenario_no_skip scenario_hash
    by (simp add: scenario_settings_def GridFilterBase_init_def getDownsampleAllData_def
        grid_at_def Voxel_init_def vec4_zip_def getVector4fMap_def PointXYZ_def)
  have b: "addPointToGrid scenario_settings (PointXYZ (1 / 100) (1 / 100) (1 / 100))
        (scenario_ready\<lparr>grid := [(0, ?v1), (215, scenario_single)]\<rparr>)
      = Some (scenario_ready\<lparr>grid := [(0, ?v2), (215, scenario_single)]\<rparr>)"
    unfolding addPointToGrid_def Let_def scenario_no_skip scenario_hash
    by (simp add: scenario_settings_def GridFilterBase_init_def getDownsampleAllData_def
        grid_at_def Voxel_init_def vec4_zip_def getVector4fMap_def PointXYZ_def)
  have c: "addPointToGrid scenario_settings (PointXYZ 5 5 5)
        (scenario_ready\<lparr>grid := [(0, ?v2), (215, scenario_single)]\<rparr>)
      = Some (scenario_ready\<lparr>grid := [(0, ?v2), (215, ?w)]\<rparr>)"
    unfolding addPointToGrid_def Let_def scenario_no_skip scenario_hash
    by (simp add: scenario_settings_def GridFilterBase_init_def getDownsampleAllData_def
        grid_at_def scenario_single_def Voxel_init_def vec4_zip_def getVector4fMap_def
        PointXYZ_def)
  show ?thesis using a b c
    by (simp add: scenario_cloud_def scenario_once_def scenario_rebinned_def)
qed

lemma scenario_emitted_again:
  "filterGridAll scenario_settings scenario_rebinned (scenario_ready\<lparr>grid := scenario_rebinned\<rparr>)
    = Some ([\<lparr>px = 3 / 800, py = 3 / 800, pz = 3 / 800, pw = 3 / 4, aux = []\<rparr>, PointXYZ 5 5 5],
            scenario_twice)"
  unfolding scenario_twice_def scenario_rebinned_def scenario_ready_def unit_grid_eq
  by (simp add: filterGrid_def Let_def scenario_settings_def GridFilterBase_init_def
      getDownsampleAllData_def getMinimumPointsNumberPerVoxel_def
      Voxel_init_def VoxelStructT_init_def PointXYZ_def PointT_default_def)

lemma scenario_applyFilter_again:
  "applyFilter scenario_settings scenario_env scenario_cloud scenario_once
    = Some (Output [\<lparr>px = 3 / 800, py = 3 / 800, pz = 3 / 800, pw = 3 / 4, aux = []\<rparr>,
                    PointXYZ 5 5 5], [], scenario_twice)"
proof -
  have ne: "scenario_cloud \<noteq> []" by (simp add: scenario_cloud_def)
  show ?thesis
    unfolding applyFilter_def using ne
    by (simp add: scenario_once_setUp scenario_binned_again scenario_emitted_again
        del: filterGridAll.simps)
qed

text \<open>
  Claim C8 at a failing input. \<^verbatim>\<open>setUp\<close> of the revision that reads the filter through
  \<^verbatim>\<open>getDerived()\<close> resets \<^verbatim>\<open>num_voxels_\<close> and the leaf layout, but not the grid. On the
  scenario cloud with at least two points per voxel, the first filter call on a new object
  puts out the mean of the two near points. The second call on the same object and the
  same cloud starts from the two voxels the first call has left: \<^verbatim>\<open>setUp\<close> keeps them, the
  points are added to them once more, and the call puts out two points, neither the same
  number nor the same first point as one call.
\<close>

theorem applyFilter_keeps_voxels_across_calls:
  "applyFilter scenario_settings scenario_env scenario_cloud unit_grid
     = Some (Output [PointXYZ (1 / 200) (1 / 200) (1 / 200)], [], scenario_once)
   \<and> setUp scenario_settings scenario_env scenario_once
     = Some (Returned True, [], scenario_once)
   \<and> map fst (grid scenario_once) = [0, 215]
   \<and> addPointsToGrid scenario_settings scenario_cloud scenario_once
     = Some (scenario_ready\<lparr>grid := scenario_rebinned\<rparr>)
   \<and> filterGridAll scenario_settings scenario_rebinned (scenario_ready\<lparr>grid := scenario_rebinned\<rparr>)
     = Some ([\<lparr>px = 3 / 800, py = 3 / 800, pz = 3 / 800, pw = 3 / 4, aux = []\<rparr>,
              PointXYZ 5 5 5], scenario_twice)
   \<and> applyFilter scenario_settings scenario_env scenario_cloud scenario_once
     = Some (Output [\<lparr>px = 3 / 800, py = 3 / 800, pz = 3 / 800, pw = 3 / 4, aux = []\<rparr>,
                     PointXYZ 5 5 5], [], scenario_twice)"
proof -
  have g: "map fst (grid scenario_once) = [0, 215]"
    by (simp add: scenario_once_def)
  from scenario_applyFilter scenario_once_setUp g scenario_binned_again scenario_emitted_again
    scenario_applyFilter_again
  show ?thesis by (intro conjI) assumption+
qed

section \<open>The whole filter call\<close>

lemma division_count_pos:
  assumes "lo \<le> v" "v \<le> hi" "0 < ils"
  shows "1 \<le> division_count lo hi ils"
proof -
  have "\<lfloor>lo * ils\<rfloor> \<le> \<lfloor>hi * ils\<rfloor>"
    using assms by (intro floor_scaled_mono) simp_all
  then show ?thesis by (simp add: division_count_def)
qed

lemma binnable_hash:
  assumes su: "setUp gf env st0 = Some (Returned True, w, st)"
    and mm: "getMinMax3D env = (min_p, max_p)"
    and il: "inverse_leaf_size st0 = ils"
    and ex: "exact_grid min_p max_p ils"
    and within: "within_extrema min_p max_p pt"
  shows "\<exists>h. hashPoint st pt = Some h
    \<and> uint h < division_count (c0 min_p) (c0 max_p) (c0 ils)
               * division_count (c1 min_p) (c1 max_p) (c1 ils)
               * division_count (c2 min_p) (c2 max_p) (c2 ils)"
proof -
  let ?Dx = "division_count (c0 min_p) (c0 max_p) (c0 ils)"
  let ?Dy = "division_count (c1 min_p) (c1 max_p) (c1 ils)"
  let ?Dz = "division_count (c2 min_p) (c2 max_p) (c2 ils)"
  have pos: "0 < c0 ils" "0 < c1 ils" "0 < c2 ils"
    and exact: "float_exact_axis (c0 min_p) (c0 max_p) (c0 ils)"
      "float_exact_axis (c1 min_p) (c1 max_p) (c1 ils)"
      "float_exact_axis (c2 min_p) (c2 max_p) (c2 ils)"
    and all: "?Dx * ?Dy * ?Dz \<le> 2 ^ 31 - 1"
    using ex by (simp_all add: exact_grid_def)
  have inx: "c0 min_p \<le> px pt" "px pt \<le> c0 max_p"
    and iny: "c1 min_p \<le> py pt" "py pt \<le> c1 max_p"
    and inz: "c2 min_p \<le> pz pt" "pz pt \<le> c2 max_p"
    using within by (simp_all add: within_extrema_def)
  have D: "1 \<le> ?Dx" "1 \<le> ?Dy" "1 \<le> ?Dz"
    using division_count_pos inx iny inz pos by blast+
  have "?Dx * ?Dy * 1 \<le> ?Dx * ?Dy * ?Dz"
    using D by (intro mult_left_mono) simp_all
  with all have nowrap: "?Dx * ?Dy \<le> 2 ^ 31 - 1" by simp
  from hash_in_division_range [OF su mm il pos inx iny inz nowrap exact]
  show ?thesis by blast
qed

lemma addPointsToGrid_defined:
  assumes "\<forall>pt \<in> set pts. field_filter_skips gf st pt = Some True
      \<or> (field_filter_skips gf st pt = Some False \<and> hashPoint st pt \<noteq> None)"
  shows "\<exists>g'. addPointsToGrid gf pts (st\<lparr>grid := g\<rparr>) = Some (st\<lparr>grid := g'\<rparr>)"
  using assms
proof (induction pts arbitrary: g)
  case Nil
  show ?case by (rule exI [of _ g]) simp
next
  case (Cons pt pts)
  from Cons.prems have rest: "\<forall>pt \<in> set pts. field_filter_skips gf st pt = Some True
      \<or> (field_filter_skips gf st pt = Some False \<and> hashPoint st pt \<noteq> None)"
    by simp
  from Cons.prems have "field_filter_skips gf st pt = Some True
      \<or> (field_filter_skips gf st pt = Some False \<and> hashPoint st pt \<noteq> None)"
    by simp
  then obtain g1 where "addPointToGrid gf pt (st\<lparr>grid := g\<rparr>) = Some (st\<lparr>grid := g1\<rparr>)"
    by (auto simp add: addPointToGrid_def Let_def)
  moreover from Cons.IH [OF rest, of g1] obtain g' where
    "addPointsToGrid gf pts (st\<lparr>grid := g1\<rparr>) = Some (st\<lparr>grid := g'\<rparr>)" by blast
  ultimately show ?case by auto
qed

lemma binning_defined:
  assumes su: "setUp gf env st0 = Some (Returned True, w, st)"
    and mm: "getMinMax3D env = (min_p, max_p)"
    and il: "inverse_leaf_size st0 = ils"
    and ex: "exact_grid min_p max_p ils"
    and ok: "\<forall>pt \<in> set pts. binnable gf st min_p max_p pt"
  shows "\<exists>st2. addPointsToGrid gf pts st = Some st2"
proof -
  have "\<forall>pt \<in> set pts. field_filter_skips gf st pt = Some True
      \<or> (field_filter_skips gf st pt = Some False \<and> hashPoint st pt \<noteq> None)"
  proof
    fix pt assume "pt \<in> set pts"
    with ok have b: "binnable gf st min_p max_p pt" by simp
    show "field_filter_skips gf st pt = Some True
      \<or> (field_filter_skips gf st pt = Some False \<and> hashPoint st pt \<noteq> None)"
    proof (cases "field_filter_skips gf st pt")
      case None
      with b show ?thesis by (simp add: binnable_def)
    next
      case (Some skipped)
      show ?thesis
      proof (cases skipped)
        case True
        with Some show ?thesis by simp
      next
        case False
        with Some b have "within_extrema min_p max_p pt" by (simp add: binnable_def)
        from binnable_hash [OF su mm il ex this] Some False show ?thesis by auto
      qed
    qed
  qed
  from addPointsToGrid_defined [OF this, of "grid st"] show ?thesis by auto
qed

lemma mem_cell_keys:
  "h \<in> set (cell_keys gf st pts) \<longleftrightarrow> cell_points gf st pts h \<noteq> []"
proof -
  have "h \<in> set (cell_keys gf st pts)
      \<longleftrightarrow> (\<exists>pt \<in> set pts. field_filter_skips gf st pt = Some False \<and> hashPoint st pt = Some h)"
    by (auto simp add: cell_keys_def List.map_filter_def image_iff split: if_splits)
  also have "\<dots> \<longleftrightarrow> cell_points gf st pts h \<noteq> []"
    by (auto simp add: cell_points_def filter_empty_conv)
  finally show ?thesis .
qed

lemma fresh_binned:
  assumes bin: "addPointsToGrid gf pts st = Some st2" and fresh: "grid st = []"
  shows "distinct (map fst (grid st2))"
    and "set (map fst (grid st2)) = set (cell_keys gf st pts)"
    and "\<And>h v. (h, v) \<in> set (grid st2) \<Longrightarrow>
          v = foldl (add_to_voxel gf) Voxel_init (cell_points gf st pts h)
          \<and> cell_points gf st pts h \<noteq> []"
proof -
  from addPointsToGrid_frame [OF bin] fresh show d: "distinct (map fst (grid st2))"
    by auto
  note inv = addPointsToGrid_cells [OF bin]
  show "set (map fst (grid st2)) = set (cell_keys gf st pts)"
  proof (rule set_eqI)
    fix h
    have "h \<in> set (map fst (grid st2)) \<longleftrightarrow> map_of (grid st2) h \<noteq> None"
      by (simp add: map_of_eq_None_iff)
    also have "\<dots> \<longleftrightarrow> cell_points gf st pts h \<noteq> []"
      using inv [of h] fresh by simp
    finally show "h \<in> set (map fst (grid st2)) \<longleftrightarrow> h \<in> set (cell_keys gf st pts)"
      by (simp add: mem_cell_keys)
  qed
  fix h v assume "(h, v) \<in> set (grid st2)"
  with d have m: "map_of (grid st2) h = Some v" by simp
  with inv [of h] fresh show "v = foldl (add_to_voxel gf) Voxel_init (cell_points gf st pts h)
          \<and> cell_points gf st pts h \<noteq> []"
    by (auto simp add: grid_at_def)
qed


lemma filterGrid_layout_length:
  assumes "filterGrid gf cell st = Some (res, st1)"
  shows "length (leaf_layout st1) = length (leaf_layout st)"
  using assms
  by (auto simp add: filterGrid_def Let_def split: if_splits Option.bind_splits)

lemma filterGridAll_defined:
  assumes "\<forall>cell \<in> set its. emits gf cell \<longrightarrow>
      (getSaveLeafLayout gf \<longrightarrow> unat (fst cell) < length (leaf_layout st))
      \<and> (if getDownsampleAllData gf then CentroidPoint_get (centroid (snd cell)) \<noteq> None
         else num_pt (snd cell) \<noteq> 0)"
  shows "\<exists>out st'. filterGridAll gf its st = Some (out, st')"
  using assms
proof (induction its arbitrary: st)
  case Nil
  show ?case by simp
next
  case (Cons cell its)
  have "\<exists>res st1. filterGrid gf cell st = Some (res, st1)"
  proof (cases "emits gf cell")
    case False
    then show ?thesis by (simp add: filterGrid_below)
  next
    case True
    with Cons.prems have room: "getSaveLeafLayout gf \<Longrightarrow> unat (fst cell) < length (leaf_layout st)"
      and val: "if getDownsampleAllData gf then CentroidPoint_get (centroid (snd cell)) \<noteq> None
         else num_pt (snd cell) \<noteq> 0"
      by simp_all
    show ?thesis
    proof (cases "getDownsampleAllData gf")
      case False
      with val have "num_pt (snd cell) \<noteq> 0" by simp
      from filterGrid_geometry [OF True False this room] show ?thesis by blast
    next
      case full: True
      with val obtain p where "CentroidPoint_get (centroid (snd cell)) = Some p" by auto
      from filterGrid_full [OF True full this room] show ?thesis by blast
    qed
  qed
  then obtain res st1 where step: "filterGrid gf cell st = Some (res, st1)" by blast
  have len: "length (leaf_layout st1) = length (leaf_layout st)"
    using filterGrid_layout_length [OF step] .
  have "\<forall>cell \<in> set its. emits gf cell \<longrightarrow>
      (getSaveLeafLayout gf \<longrightarrow> unat (fst cell) < length (leaf_layout st1))
      \<and> (if getDownsampleAllData gf then CentroidPoint_get (centroid (snd cell)) \<noteq> None
         else num_pt (snd cell) \<noteq> 0)"
    using Cons.prems by (simp add: len)
  from Cons.IH [OF this] obtain out st' where "filterGridAll gf its st1 = Some (out, st')"
    by blast
  with step show ?case by simp
qed

lemma CentroidPoint_add_defined:
  assumes "num_points c = 0 \<or> 3 \<le> length (field_sums c)"
  shows "num_points (CentroidPoint_add c q) \<noteq> 0
    \<and> 3 \<le> length (field_sums (CentroidPoint_add c q))"
  using assms by (auto simp add: CentroidPoint_add_def length_all_fields)

lemma CentroidPoint_fold_defined:
  assumes "num_points c \<noteq> 0 \<and> 3 \<le> length (field_sums c)"
  shows "num_points (foldl CentroidPoint_add c qs) \<noteq> 0
    \<and> 3 \<le> length (field_sums (foldl CentroidPoint_add c qs))"
  using assms
proof (induction qs arbitrary: c)
  case Nil
  then show ?case by simp
next
  case (Cons q qs)
  have "num_points (CentroidPoint_add c q) \<noteq> 0
    \<and> 3 \<le> length (field_sums (CentroidPoint_add c q))"
    using Cons.prems by (intro CentroidPoint_add_defined) simp
  from Cons.IH [OF this] show ?case by simp
qed

lemma CentroidPoint_get_fold:
  assumes "qs \<noteq> []"
  shows "CentroidPoint_get (foldl CentroidPoint_add CentroidPoint_init qs) \<noteq> None"
proof -
  from assms obtain q rest where qs: "qs = q # rest" by (cases qs) auto
  have "num_points (CentroidPoint_add CentroidPoint_init q) \<noteq> 0
    \<and> 3 \<le> length (field_sums (CentroidPoint_add CentroidPoint_init q))"
    by (intro CentroidPoint_add_defined) (simp add: CentroidPoint_init_def)
  from CentroidPoint_fold_defined [OF this, of rest] show ?thesis
    by (simp add: qs CentroidPoint_get_def)
qed

lemma fresh_emission_defined:
  assumes bin: "addPointsToGrid gf pts st = Some st2" and fresh: "grid st = []"
    and room: "getSaveLeafLayout gf \<Longrightarrow>
      \<forall>h \<in> set (cell_keys gf st pts). unat h < length (leaf_layout st2)"
  shows "\<exists>out st3. filterGridAll gf (grid st2) st2 = Some (out, st3)"
proof (rule filterGridAll_defined, intro ballI impI conjI)
  fix cell assume c: "cell \<in> set (grid st2)"
  obtain h v where hv: "cell = (h, v)" by (cases cell)
  from fresh_binned(3) [OF bin fresh, of h v] c hv
  have v: "v = foldl (add_to_voxel gf) Voxel_init (cell_points gf st pts h)"
    and ne: "cell_points gf st pts h \<noteq> []" by simp_all
  {
    assume "getSaveLeafLayout gf"
    from room [OF this] fresh_binned(2) [OF bin fresh] c hv
    show "unat (fst cell) < length (leaf_layout st2)" by force
  }
  show "if getDownsampleAllData gf then CentroidPoint_get (centroid (snd cell)) \<noteq> None
         else num_pt (snd cell) \<noteq> 0"
  proof (cases "getDownsampleAllData gf")
    case True
    have "centroid v = foldl CentroidPoint_add CentroidPoint_init (cell_points gf st pts h)"
      by (simp add: v foldl_add_to_voxel_centroid [OF True] Voxel_init_def)
    with CentroidPoint_get_fold [OF ne] True hv show ?thesis by simp
  next
    case False
    have "num_pt v = length (cell_points gf st pts h)"
      by (simp add: v foldl_add_to_voxel_num Voxel_init_def)
    with ne False hv show ?thesis by simp
  qed
qed

lemma setUp_layout_size:
  assumes su: "setUp gf env st0 = Some (Returned True, w, st)"
    and mm: "getMinMax3D env = (min_p, max_p)"
    and il: "inverse_leaf_size st0 = ils"
    and save: "getSaveLeafLayout gf"
    and nonneg: "0 \<le> division_count (c0 min_p) (c0 max_p) (c0 ils)
         * division_count (c1 min_p) (c1 max_p) (c1 ils)
         * division_count (c2 min_p) (c2 max_p) (c2 ils)"
    and small: "division_count (c0 min_p) (c0 max_p) (c0 ils)
         * division_count (c1 min_p) (c1 max_p) (c1 ils)
         * division_count (c2 min_p) (c2 max_p) (c2 ils) \<le> 2 ^ 31 - 1"
  shows "length (leaf_layout st)
    = nat (division_count (c0 min_p) (c0 max_p) (c0 ils)
         * division_count (c1 min_p) (c1 max_p) (c1 ils)
         * division_count (c2 min_p) (c2 max_p) (c2 ils))"
proof -
  let ?P = "division_count (c0 min_p) (c0 max_p) (c0 ils)
         * division_count (c1 min_p) (c1 max_p) (c1 ils)
         * division_count (c2 min_p) (c2 max_p) (c2 ils)"
  from setUp_fields [OF su] mm il obtain mnb mxb where
    mn: "floor_cast_int (vec4_zip (*) min_p ils) = Some mnb"
    and mx: "floor_cast_int (vec4_zip (*) max_p ils) = Some mxb"
    and db: "div_b st = vec4_zip (\<lambda>a b. a - b + 1) mxb mnb"
    by auto
  have a: "c0 mnb = word_of_int \<lfloor>c0 min_p * c0 ils\<rfloor>" "c1 mnb = word_of_int \<lfloor>c1 min_p * c1 ils\<rfloor>"
    "c2 mnb = word_of_int \<lfloor>c2 min_p * c2 ils\<rfloor>"
    using floor_cast_int_Some [OF mn] by (simp_all add: vec4_zip_def)
  have b: "c0 mxb = word_of_int \<lfloor>c0 max_p * c0 ils\<rfloor>" "c1 mxb = word_of_int \<lfloor>c1 max_p * c1 ils\<rfloor>"
    "c2 mxb = word_of_int \<lfloor>c2 max_p * c2 ils\<rfloor>"
    using floor_cast_int_Some [OF mx] by (simp_all add: vec4_zip_def)
  have prod: "c0 (div_b st) * c1 (div_b st) * c2 (div_b st) = (word_of_int ?P :: int32)"
    by (simp add: db vec4_zip_def a b division_count_def)
  have "(scast (c0 (div_b st) * c1 (div_b st) * c2 (div_b st)) :: size_t) = word_of_int ?P"
    unfolding prod using nonneg small by (intro scast_word_of_int_32) simp_all
  moreover have "uint (word_of_int ?P :: size_t) = ?P"
    using nonneg small by (intro uint_word_of_int_64) simp_all
  ultimately have "unat (scast (c0 (div_b st) * c1 (div_b st) * c2 (div_b st)) :: size_t)
      = nat ?P"
    by (simp add: unat_eq_nat_uint)
  with setUp_ready(4) [OF su save] show ?thesis by simp
qed

lemma filter_call_defined:
  assumes su: "setUp gf env st0 = Some (Returned True, w, st)"
    and fresh: "grid st0 = []"
    and mm: "getMinMax3D env = (min_p, max_p)"
    and il: "inverse_leaf_size st0 = ils"
    and ex: "exact_grid min_p max_p ils"
    and ok: "\<forall>pt \<in> set pts. binnable gf st min_p max_p pt"
  shows "\<exists>st2 output st3. addPointsToGrid gf pts st = Some st2
    \<and> filterGridAll gf (grid st2) st2 = Some (output, st3)"
proof -
  let ?P = "division_count (c0 min_p) (c0 max_p) (c0 ils)
         * division_count (c1 min_p) (c1 max_p) (c1 ils)
         * division_count (c2 min_p) (c2 max_p) (c2 ils)"
  from binning_defined [OF su mm il ex ok] obtain st2 where
    bin: "addPointsToGrid gf pts st = Some st2" by blast
  have fresh1: "grid st = []" using setUp_ready(2) [OF su] fresh by simp
  from addPointsToGrid_frame [OF bin] have lay: "leaf_layout st2 = leaf_layout st" by auto
  have small: "?P \<le> 2 ^ 31 - 1" using ex by (simp add: exact_grid_def)
  have room: "\<forall>h \<in> set (cell_keys gf st pts). unat h < length (leaf_layout st2)"
    if save: "getSaveLeafLayout gf"
  proof
    fix h assume "h \<in> set (cell_keys gf st pts)"
    then obtain pt where pt: "pt \<in> set pts" "field_filter_skips gf st pt = Some False"
      "hashPoint st pt = Some h"
      by (auto simp add: cell_keys_def List.map_filter_def image_iff split: if_splits)
    with ok have "within_extrema min_p max_p pt" by (auto simp add: binnable_def)
    from binnable_hash [OF su mm il ex this] pt(3) have lt: "uint h < ?P" by auto
    then have nonneg: "0 \<le> ?P" using uint_ge_0 [of h] by linarith
    have len: "length (leaf_layout st) = nat ?P"
      using setUp_layout_size [OF su mm il save nonneg small] .
    have "nat (uint h) < nat ?P"
      using lt uint_ge_0 [of h] by (simp only: nat_less_eq_zless)
    then show "unat h < length (leaf_layout st2)"
      unfolding lay len unat_eq_nat_uint .
  qed
  from fresh_emission_defined [OF bin fresh1 room] bin show ?thesis by blast
qed














text \<open>
  Claim C10, as the code has it. Take a filter call with the leaf layout saved whose
  \<^verbatim>\<open>setUp\<close> returns true; the keys of the grid are distinct, as in every
  \<^verbatim>\<open>std::unordered_map\<close>, and no vector holds \<open>2 ^ 61\<close> entries. Whenever the binning of the
  input and the emission stay within defined behaviour, every entry of the leaf layout
  other than the sentinel -1 is an index into the output cloud, every index of the output
  cloud stands at exactly one position of the layout, and \<^verbatim>\<open>num_voxels_\<close> is the number of
  output points: the entries other than the sentinel are pairwise distinct and are exactly
  0, ..., k - 1. Binning and emission are defined when the call starts on a grid without
  voxels, the grid is one that the code addresses exactly (\<open>exact_grid\<close>, which bounds
  the number of cells by the largest \<^verbatim>\<open>int\<close>) and every point is one that \<^verbatim>\<open>addPointToGrid\<close>
  can take (\<open>binnable\<close>).
\<close>

theorem leaf_layout_indices:
  assumes save: "getSaveLeafLayout gf"
    and su: "setUp gf env st0 = Some (Returned True, w, st)"
    and cap: "layout_capacity env < 2 ^ 61"
    and keys: "distinct (map fst (grid st0))"
    and mm: "getMinMax3D env = (min_p, max_p)"
    and il: "inverse_leaf_size st0 = ils"
  shows "(\<forall>st2 output st3. addPointsToGrid gf input st = Some st2
            \<longrightarrow> filterGridAll gf (grid st2) st2 = Some (output, st3)
            \<longrightarrow> (\<forall>i < length (leaf_layout st3). leaf_layout st3 ! i \<noteq> - 1 \<longrightarrow>
                    0 \<le> sint (leaf_layout st3 ! i)
                    \<and> sint (leaf_layout st3 ! i) < int (length output))
                \<and> (\<forall>j < length output. \<exists>!i. i < length (leaf_layout st3)
                      \<and> sint (leaf_layout st3 ! i) = int j)
                \<and> num_voxels st3 = length output)
       \<and> (grid st0 = [] \<and> exact_grid min_p max_p ils
            \<and> (\<forall>pt \<in> set input. binnable gf st min_p max_p pt)
            \<longrightarrow> (\<exists>st2 output st3. addPointsToGrid gf input st = Some st2
                  \<and> filterGridAll gf (grid st2) st2 = Some (output, st3)))"
proof -
  have a: "\<forall>st2 output st3. addPointsToGrid gf input st = Some st2
            \<longrightarrow> filterGridAll gf (grid st2) st2 = Some (output, st3)
            \<longrightarrow> (\<forall>i < length (leaf_layout st3). leaf_layout st3 ! i \<noteq> - 1 \<longrightarrow>
                    0 \<le> sint (leaf_layout st3 ! i)
                    \<and> sint (leaf_layout st3 ! i) < int (length output))
                \<and> (\<forall>j < length output. \<exists>!i. i < length (leaf_layout st3)
                      \<and> sint (leaf_layout st3 ! i) = int j)
                \<and> num_voxels st3 = length output"
  proof (intro allI impI)
    fix st2 out st3
    assume bin: "addPointsToGrid gf input st = Some st2"
      and em: "filterGridAll gf (grid st2) st2 = Some (out, st3)"
    from layout_after_emission [OF save su cap keys bin em]
    show "(\<forall>i < length (leaf_layout st3). leaf_layout st3 ! i \<noteq> - 1 \<longrightarrow>
                    0 \<le> sint (leaf_layout st3 ! i)
                    \<and> sint (leaf_layout st3 ! i) < int (length out))
                \<and> (\<forall>j < length out. \<exists>!i. i < length (leaf_layout st3)
                      \<and> sint (leaf_layout st3 ! i) = int j)
                \<and> num_voxels st3 = length out" .
  qed
  have b: "grid st0 = [] \<and> exact_grid min_p max_p ils
            \<and> (\<forall>pt \<in> set input. binnable gf st min_p max_p pt)
            \<longrightarrow> (\<exists>st2 output st3. addPointsToGrid gf input st = Some st2
                  \<and> filterGridAll gf (grid st2) st2 = Some (output, st3))"
    using filter_call_defined [OF su _ mm il] by blast
  from a b show ?thesis by (rule conjI)
qed

lemma two_cell_exact_grid:
  "exact_grid (Vec4 (1 / 2) (1 / 2) (1 / 2) 1) (Vec4 (3 / 2) (3 / 2) (1 / 2) 1) (Vec4 1 1 1 1)"
  by (simp add: exact_grid_def float_exact_axis_def division_count_def)

lemma two_cell_binnable:
  "binnable two_cell_settings two_cell_ready (Vec4 (1 / 2) (1 / 2) (1 / 2) 1)
     (Vec4 (3 / 2) (3 / 2) (1 / 2) 1) (PointXYZ (3 / 2) (1 / 2) (1 / 2))"
  "binnable two_cell_settings two_cell_ready (Vec4 (1 / 2) (1 / 2) (1 / 2) 1)
     (Vec4 (3 / 2) (3 / 2) (1 / 2) 1) (PointXYZ (1 / 2) (3 / 2) (1 / 2))"
  using two_cell_no_skip [of "[]"]
  by (simp_all add: binnable_def within_extrema_def two_cell_ready_grid PointXYZ_def
      del: field_filter_skips_grid)

theorem leaf_layout_indices_witness:
  "getSaveLeafLayout two_cell_settings
   \<and> setUp two_cell_settings two_cell_env unit_grid = Some (Returned True, [], two_cell_ready)
   \<and> layout_capacity two_cell_env < 2 ^ 61
   \<and> distinct (map fst (grid unit_grid))
   \<and> getMinMax3D two_cell_env = (Vec4 (1 / 2) (1 / 2) (1 / 2) 1, Vec4 (3 / 2) (3 / 2) (1 / 2) 1)
   \<and> inverse_leaf_size unit_grid = Vec4 1 1 1 1
   \<and> addPointsToGrid two_cell_settings two_cell_cloud two_cell_ready
       = Some (two_cell_ready\<lparr>grid := [(1, voxel_A), (2, voxel_B)]\<rparr>)
   \<and> filterGridAll two_cell_settings (grid (two_cell_ready\<lparr>grid := [(1, voxel_A), (2, voxel_B)]\<rparr>))
         (two_cell_ready\<lparr>grid := [(1, voxel_A), (2, voxel_B)]\<rparr>)
       = Some (two_cell_cloud, two_cell_filtered)
   \<and> leaf_layout two_cell_filtered = [- 1, 0, 1, - 1]
   \<and> num_voxels two_cell_filtered = length two_cell_cloud
   \<and> sint (leaf_layout two_cell_filtered ! 2) < int (length two_cell_cloud)
   \<and> (\<exists>!i. i < length (leaf_layout two_cell_filtered)
          \<and> sint (leaf_layout two_cell_filtered ! i) = int 1)
   \<and> grid unit_grid = []
   \<and> exact_grid (Vec4 (1 / 2) (1 / 2) (1 / 2) 1) (Vec4 (3 / 2) (3 / 2) (1 / 2) 1) (Vec4 1 1 1 1)
   \<and> binnable two_cell_settings two_cell_ready (Vec4 (1 / 2) (1 / 2) (1 / 2) 1)
       (Vec4 (3 / 2) (3 / 2) (1 / 2) 1) (PointXYZ (3 / 2) (1 / 2) (1 / 2))
   \<and> binnable two_cell_settings two_cell_ready (Vec4 (1 / 2) (1 / 2) (1 / 2) 1)
       (Vec4 (3 / 2) (3 / 2) (1 / 2) 1) (PointXYZ (1 / 2) (3 / 2) (1 / 2))
   \<and> (\<exists>st2 output st3. addPointsToGrid two_cell_settings two_cell_cloud two_cell_ready = Some st2
         \<and> filterGridAll two_cell_settings (grid st2) st2 = Some (output, st3))"
proof -
  have save: "getSaveLeafLayout two_cell_settings"
    by (simp add: two_cell_settings_def)
  have cap: "layout_capacity two_cell_env < 2 ^ 61"
    by (simp add: two_cell_env_def)
  have fresh: "grid unit_grid = []" by (simp add: unit_grid_eq VoxelStructT_init_def)
  then have keys: "distinct (map fst (grid unit_grid))" by simp
  have mm: "getMinMax3D two_cell_env
      = (Vec4 (1 / 2) (1 / 2) (1 / 2) 1, Vec4 (3 / 2) (3 / 2) (1 / 2) 1)"
    by (simp add: two_cell_env_def)
  have il: "inverse_leaf_size unit_grid = Vec4 1 1 1 1" by (simp add: unit_grid_eq)
  have em: "filterGridAll two_cell_settings
      (grid (two_cell_ready\<lparr>grid := [(1, voxel_A), (2, voxel_B)]\<rparr>))
      (two_cell_ready\<lparr>grid := [(1, voxel_A), (2, voxel_B)]\<rparr>)
      = Some (two_cell_cloud, two_cell_filtered)"
    using two_cell_emitted by simp
  have lay: "leaf_layout two_cell_filtered = [- 1, 0, 1, - 1]"
    by (simp add: two_cell_filtered_def)
  have all: "\<forall>pt \<in> set two_cell_cloud.
      binnable two_cell_settings two_cell_ready (Vec4 (1 / 2) (1 / 2) (1 / 2) 1)
        (Vec4 (3 / 2) (3 / 2) (1 / 2) 1) pt"
    using two_cell_binnable by (simp add: two_cell_cloud_def)
  note T = leaf_layout_indices [where input = two_cell_cloud,
      OF save two_cell_setUp cap keys mm il]
  from T two_cell_binned em
  have P: "(\<forall>i < length (leaf_layout two_cell_filtered).
              leaf_layout two_cell_filtered ! i \<noteq> - 1 \<longrightarrow>
              0 \<le> sint (leaf_layout two_cell_filtered ! i)
              \<and> sint (leaf_layout two_cell_filtered ! i) < int (length two_cell_cloud))
       \<and> (\<forall>j < length two_cell_cloud. \<exists>!i. i < length (leaf_layout two_cell_filtered)
             \<and> sint (leaf_layout two_cell_filtered ! i) = int j)
       \<and> num_voxels two_cell_filtered = length two_cell_cloud"
    by blast
  have two: "(2::nat) < length (leaf_layout two_cell_filtered)"
    and ne: "leaf_layout two_cell_filtered ! 2 \<noteq> - 1"
    by (simp_all add: lay)
  have one: "(1::nat) < length two_cell_cloud" by (simp add: two_cell_cloud_def)
  from P two ne have c1: "sint (leaf_layout two_cell_filtered ! 2) < int (length two_cell_cloud)"
    by blast
  from P one have c2: "\<exists>!i. i < length (leaf_layout two_cell_filtered)
          \<and> sint (leaf_layout two_cell_filtered ! i) = int 1"
    by blast
  from P have c3: "num_voxels two_cell_filtered = length two_cell_cloud" by blast
  from T fresh two_cell_exact_grid all
  have c4: "\<exists>st2 output st3. addPointsToGrid two_cell_settings two_cell_cloud two_cell_ready = Some st2
         \<and> filterGridAll two_cell_settings (grid st2) st2 = Some (output, st3)"
    by blast
  from save two_cell_setUp cap keys mm il two_cell_binned em lay c3 c1 c2 fresh
    two_cell_exact_grid two_cell_binnable c4
  show ?thesis by (intro conjI) assumption+
qed

text \<open>
  The claim as stated speaks of every filter call that saves the leaf layout. When
  \<^verbatim>\<open>setUp\<close> fails it returns before it resets the layout: after a call on two points in two
  cells, a call on a cloud whose cell count overflows puts out no point and leaves
  \<^verbatim>\<open>num_voxels_\<close> at 0, and the layout still holds the indices 0 and 1 of the call before.
\<close>

theorem failed_call_keeps_leaf_layout:
  "getSaveLeafLayout two_cell_settings
   \<and> applyFilter two_cell_settings two_cell_env two_cell_cloud unit_grid
     = Some (Output two_cell_cloud, [], two_cell_filtered)
   \<and> setUp two_cell_settings huge_env two_cell_filtered
     = Some (Returned False, [warn_overflow ''VoxelGrid''], two_cell_failed)
   \<and> applyFilter two_cell_settings huge_env huge_cloud two_cell_filtered
     = Some (Output [], [warn_overflow ''VoxelGrid''], two_cell_failed)
   \<and> leaf_layout two_cell_failed = [- 1, 0, 1, - 1]
   \<and> num_voxels two_cell_failed = 0"
proof -
  have save: "getSaveLeafLayout two_cell_settings"
    by (simp add: two_cell_settings_def)
  have su: "setUp two_cell_settings huge_env two_cell_filtered
     = Some (Returned False, [warn_overflow ''VoxelGrid''], two_cell_failed)"
    unfolding setUp_def Let_def two_cell_failed_def two_cell_filtered_def two_cell_ready_def
      unit_grid_eq
    by (simp add: huge_env_def two_cell_settings_def conv_defs VoxelStructT_init_def
        GridFilterBase_init_def checkIfOverflow_def max_size_def)
  have ne: "huge_cloud \<noteq> []" by (simp add: huge_cloud_def)
  have ap: "applyFilter two_cell_settings huge_env huge_cloud two_cell_filtered
     = Some (Output [], [warn_overflow ''VoxelGrid''], two_cell_failed)"
    unfolding applyFilter_def using ne by (simp add: su)
  have lay: "leaf_layout two_cell_failed = [- 1, 0, 1, - 1]"
    and nv: "num_voxels two_cell_failed = 0"
    by (simp_all add: two_cell_failed_def two_cell_filtered_def)
  from save two_cell_applyFilter su ap lay nv show ?thesis
    by (intro conjI) assumption+
qed

section \<open>Properties of the rebuilt grid\<close>

text \<open>
  \<^verbatim>\<open>setUp\<close> of the revision with \<^verbatim>\<open>grid_.clear()\<close> does not read the grid or the counter,
  and returns with both reset.
\<close>

lemma fill_leaf_layout_idem:
  "fill_leaf_layout n (fill_leaf_layout n L) = fill_leaf_layout n L"
  by (simp add: fill_leaf_layout_def min_def)

lemma setUp2_forgets:
  "setUp2 gf env (st\<lparr>grid2 := g, num_voxels2 := n\<rparr>) = setUp2 gf env st"
  by (simp add: setUp2_def Let_def cong: if_cong)

lemma setUp2_clears:
  assumes "setUp2 gf env st = Some (r, w, st1)"
  shows "grid2 st1 = []" "num_voxels2 st1 = 0" "save_leaf_layout2 st1 = save_leaf_layout2 st"
  using assms
  by (auto simp add: setUp2_def Let_def split: Option.bind_splits if_splits)

lemma setUp2_stable:
  assumes "setUp2 gf env st = Some (r, w, st1)"
    and "L = leaf_layout2 st1 \<or> (r = Returned True \<and> save_leaf_layout2 st)"
  shows "setUp2 gf env (st1\<lparr>grid2 := g, num_voxels2 := n, leaf_layout2 := L\<rparr>) = Some (r, w, st1)"
  using assms
  by (auto simp add: setUp2_def Let_def resize_fill_leaf_layout fill_leaf_layout_idem
      split: Option.bind_splits if_splits)


lemma addPointsToGrid2_frame:
  "addPointsToGrid2 pts st = Some st2 \<Longrightarrow> \<exists>g. st2 = st\<lparr>grid2 := g\<rparr>"
proof (induction pts arbitrary: st)
  case Nil
  then have "st2 = st\<lparr>grid2 := grid2 st\<rparr>" by simp
  then show ?case by blast
next
  case (Cons pt pts)
  from Cons.prems obtain st1 where a: "addPointToGrid2 pt st = Some st1"
    and b: "addPointsToGrid2 pts st1 = Some st2"
    by (auto split: Option.bind_splits)
  from a obtain g1 where g1: "st1 = st\<lparr>grid2 := g1\<rparr>"
    by (auto simp add: addPointToGrid2_def split: Option.bind_splits)
  from Cons.IH [OF b] obtain g where "st2 = st1\<lparr>grid2 := g\<rparr>" by blast
  with g1 have "st2 = st\<lparr>grid2 := g\<rparr>" by simp
  then show ?case by blast
qed

lemma filterGrid2_frame:
  assumes "filterGrid2 grid_it st = Some (res, st1)"
  shows "\<exists>n L. st1 = st\<lparr>leaf_layout2 := L, num_voxels2 := n\<rparr>
           \<and> (\<not> save_leaf_layout2 st \<longrightarrow> L = leaf_layout2 st)"
proof -
  have keep: "st1 = st \<Longrightarrow> ?thesis"
  proof -
    assume "st1 = st"
    then have "st1 = st\<lparr>leaf_layout2 := leaf_layout2 st, num_voxels2 := num_voxels2 st\<rparr>
        \<and> (\<not> save_leaf_layout2 st \<longrightarrow> leaf_layout2 st = leaf_layout2 st)" by simp
    then show ?thesis by (intro exI)
  qed
  show ?thesis
  proof (cases "min_points_per_voxel2 st \<le> num_points (snd grid_it)")
    case False
    with assms have "st1 = st" by (simp add: filterGrid2_def)
    then show ?thesis by (rule keep)
  next
    case True
    with assms have u: "(if save_leaf_layout2 st then
            (if unat (fst grid_it) < length (leaf_layout2 st)
             then Some (st\<lparr>leaf_layout2 :=
                             (leaf_layout2 st)[unat (fst grid_it) := word_of_nat (num_voxels2 st)],
                           num_voxels2 := num_voxels2 st + 1\<rparr>)
             else None)
          else Some st) = Some st1"
      unfolding filterGrid2_def Let_def
      by (simp only: if_True bind_eq_Some_conv) ((elim exE conjE), simp)
    show ?thesis
    proof (cases "save_leaf_layout2 st")
      case False
      with u have "st1 = st" by simp
      then show ?thesis by (rule keep)
    next
      case True
      with u have "st1 = st\<lparr>leaf_layout2 :=
            (leaf_layout2 st)[unat (fst grid_it) := word_of_nat (num_voxels2 st)],
            num_voxels2 := num_voxels2 st + 1\<rparr>"
        by (cases "unat (fst grid_it) < length (leaf_layout2 st)") simp_all
      with True show ?thesis by blast
    qed
  qed
qed

lemma filterGridAll2_frame:
  "filterGridAll2 its st = Some (out, st3) \<Longrightarrow>
     \<exists>n L. st3 = st\<lparr>leaf_layout2 := L, num_voxels2 := n\<rparr>
       \<and> (\<not> save_leaf_layout2 st \<longrightarrow> L = leaf_layout2 st)"
proof (induction its arbitrary: st out)
  case Nil
  then have "st3 = st\<lparr>leaf_layout2 := leaf_layout2 st, num_voxels2 := num_voxels2 st\<rparr>" by simp
  then show ?case by blast
next
  case (Cons grid_it its)
  from Cons.prems obtain res st1 out1 where a: "filterGrid2 grid_it st = Some (res, st1)"
    and b: "filterGridAll2 its st1 = Some (out1, st3)"
    by (auto split: Option.bind_splits)
  from filterGrid2_frame [OF a] obtain n1 L1
    where f1: "st1 = st\<lparr>leaf_layout2 := L1, num_voxels2 := n1\<rparr>"
      and k1: "\<not> save_leaf_layout2 st \<longrightarrow> L1 = leaf_layout2 st" by blast
  from Cons.IH [OF b] obtain n L
    where f: "st3 = st1\<lparr>leaf_layout2 := L, num_voxels2 := n\<rparr>"
      and k: "\<not> save_leaf_layout2 st1 \<longrightarrow> L = leaf_layout2 st1" by blast
  from f f1 have "st3 = st\<lparr>leaf_layout2 := L, num_voxels2 := n\<rparr>" by simp
  moreover from k k1 f1 have "\<not> save_leaf_layout2 st \<longrightarrow> L = leaf_layout2 st" by simp
  ultimately show ?case by blast
qed

lemma applyFilter2_phases:
  assumes run: "applyFilter2 gf env input st = Some (res, warnings, st')" and ne: "input \<noteq> []"
  obtains r st1 where "setUp2 gf env st = Some (r, warnings, st1)"
    and "(case r of
          Thrown \<Rightarrow> Some (PCLException, warnings, st1)
        | Returned False \<Rightarrow> Some (Output [], warnings, st1)
        | Returned True \<Rightarrow> do {
            st2 \<leftarrow> addPointsToGrid2 input st1;
            (output, st3) \<leftarrow> filterGridAll2 (grid2 st2) st2;
            Some (Output output, warnings, st3)
          }) = Some (res, warnings, st')"
proof -
  from run ne have "setUp2 gf env st \<bind> (\<lambda>(r, w1, st1). case r of
          Thrown \<Rightarrow> Some (PCLException, w1, st1)
        | Returned False \<Rightarrow> Some (Output [], w1, st1)
        | Returned True \<Rightarrow> do {
            st2 \<leftarrow> addPointsToGrid2 input st1;
            (output, st3) \<leftarrow> filterGridAll2 (grid2 st2) st2;
            Some (Output output, w1, st3)
          }) = Some (res, warnings, st')"
    by (simp add: applyFilter2_def)
  then obtain r w1 st1 where su1: "setUp2 gf env st = Some (r, w1, st1)"
    and rest1: "(case r of
          Thrown \<Rightarrow> Some (PCLException, w1, st1)
        | Returned False \<Rightarrow> Some (Output [], w1, st1)
        | Returned True \<Rightarrow> do {
            st2 \<leftarrow> addPointsToGrid2 input st1;
            (output, st3) \<leftarrow> filterGridAll2 (grid2 st2) st2;
            Some (Output output, w1, st3)
          }) = Some (res, warnings, st')"
    unfolding bind_eq_Some_conv by auto
  have w1: "w1 = warnings"
  proof (cases r)
    case (Returned b)
    with rest1 show ?thesis
      by (cases b) (auto simp add: bind_eq_Some_conv)
  next
    case Thrown
    with rest1 show ?thesis by simp
  qed
  from su1 rest1 that show thesis unfolding w1 by blast
qed

lemma applyFilter2_again:
  assumes run: "applyFilter2 gf env input st = Some (res, warnings, st')"
  shows "applyFilter2 gf env input st' = Some (res, warnings, st')"
proof (cases "input = []")
  case True
  with run show ?thesis by (simp add: applyFilter2_def)
next
  case False
  from applyFilter2_phases [OF run False] obtain r st1
    where su: "setUp2 gf env st = Some (r, warnings, st1)"
    and rest: "(case r of
          Thrown \<Rightarrow> Some (PCLException, warnings, st1)
        | Returned False \<Rightarrow> Some (Output [], warnings, st1)
        | Returned True \<Rightarrow> do {
            st2 \<leftarrow> addPointsToGrid2 input st1;
            (output, st3) \<leftarrow> filterGridAll2 (grid2 st2) st2;
            Some (Output output, warnings, st3)
          }) = Some (res, warnings, st')" by blast
  have same: "st1\<lparr>grid2 := grid2 st1, num_voxels2 := num_voxels2 st1,
      leaf_layout2 := leaf_layout2 st1\<rparr> = st1" by simp
  have idle: "setUp2 gf env st1 = Some (r, warnings, st1)"
    using setUp2_stable [OF su, where L = "leaf_layout2 st1" and g = "grid2 st1"
        and n = "num_voxels2 st1"]
    unfolding same by simp
  show ?thesis
  proof (cases "r = Returned True")
    case False
    then have "st' = st1" using rest
      by (cases r) (auto split: bool.splits)
    with idle rest False \<open>input \<noteq> []\<close> show ?thesis
      by (simp add: applyFilter2_def)
  next
    case True
    with rest obtain st2 out where bin: "addPointsToGrid2 input st1 = Some st2"
      and emit: "filterGridAll2 (grid2 st2) st2 = Some (out, st')"
      and res: "res = Output out"
      by (auto simp add: bind_eq_Some_conv)
    from addPointsToGrid2_frame [OF bin] obtain g where g: "st2 = st1\<lparr>grid2 := g\<rparr>" by blast
    from filterGridAll2_frame [OF emit] obtain n L
      where f: "st' = st2\<lparr>leaf_layout2 := L, num_voxels2 := n\<rparr>"
        and k: "\<not> save_leaf_layout2 st2 \<longrightarrow> L = leaf_layout2 st2" by blast
    have shape: "st' = st1\<lparr>grid2 := g, num_voxels2 := n, leaf_layout2 := L\<rparr>"
      using f g by simp
    have "L = leaf_layout2 st1 \<or> (r = Returned True \<and> save_leaf_layout2 st)"
      using k g True setUp2_clears(3) [OF su] by auto
    from setUp2_stable [OF su this, where g = g and n = n]
    have "setUp2 gf env st' = Some (r, warnings, st1)" unfolding shape .
    with True bin emit res \<open>input \<noteq> []\<close> show ?thesis
      by (simp add: applyFilter2_def)
  qed
qed

text \<open>
  In the revision whose \<^verbatim>\<open>setUp\<close> calls \<^verbatim>\<open>grid_.clear()\<close> the grid is rebuilt by every call.
  Let a filter call on a grid structure in any state \<open>st\<close> return the result \<open>res\<close>, the
  warnings and the state \<open>st'\<close>. Then the same call on \<open>st'\<close>, the state the first call
  has left, returns the same result, the same warnings and the same state: two successive
  calls on the same input give what one call gives. For a non-empty input the call gives
  the same on \<open>st\<close> with any other grid contents \<open>g\<close> and any other counter \<open>n\<close> in place
  of its own, so that no voxel and no count of an earlier call reaches the result; and
  \<^verbatim>\<open>setUp\<close>, the first phase of the call, returns with the grid empty and the counter 0.
\<close>

lemma filter_rebuilds_grid:
  assumes "applyFilter2 gf env input st = Some (res, warnings, st')"
  shows "applyFilter2 gf env input st' = Some (res, warnings, st')
    \<and> (input \<noteq> [] \<longrightarrow>
        applyFilter2 gf env input (st\<lparr>grid2 := g, num_voxels2 := n\<rparr>) = Some (res, warnings, st')
        \<and> (\<exists>r st1. setUp2 gf env st = Some (r, warnings, st1)
              \<and> grid2 st1 = [] \<and> num_voxels2 st1 = 0))"
proof (intro conjI impI)
  show "applyFilter2 gf env input st' = Some (res, warnings, st')"
    using assms by (rule applyFilter2_again)
next
  assume "input \<noteq> []"
  then show "applyFilter2 gf env input (st\<lparr>grid2 := g, num_voxels2 := n\<rparr>)
      = Some (res, warnings, st')"
    using assms by (simp add: applyFilter2_def setUp2_forgets)
next
  assume ne: "input \<noteq> []"
  from applyFilter2_phases [OF assms ne] obtain r st1
    where su: "setUp2 gf env st = Some (r, warnings, st1)" by blast
  with setUp2_clears(1,2) [OF su]
  show "\<exists>r st1. setUp2 gf env st = Some (r, warnings, st1)
      \<and> grid2 st1 = [] \<and> num_voxels2 st1 = 0" by blast
qed


lemma replicate3: "replicate 3 x = [x, x, x]"
  by (simp add: numeral_eq_Suc)

lemma stale_setUp2:
  "setUp2 two_cell_settings two_cell_env stale_grid = Some (Returned True, [], rebuilt_ready)"
  unfolding setUp2_def Let_def stale_grid_def rebuilt_ready_def
  by (simp add: two_cell_env_def two_cell_settings_def conv_defs VoxelStruct2_init_def
      GridFilterBase_init_def setSaveLeafLayout_def setLeafSize_2_def avoid_division_errors_def
      array_inverse_def getDownsampleAllData_def getMinimumPointsNumberPerVoxel_def
      checkHashRange_def max_size_def fill_leaf_layout_def resize_leaf_layout_def replicate3)

lemma rebuilt_hash_A:
  "GridFilterBase_hashPoint (PointXYZ (3 / 2) (1 / 2) (1 / 2)) (Vec4 1 1 1 1) (Vec4 0 0 0 1)
     (Vec4 1 2 4 0) = Some 1"
  by (simp add: GridFilterBase_hashPoint_def PointXYZ_def conv_defs)

lemma rebuilt_hash_B:
  "GridFilterBase_hashPoint (PointXYZ (1 / 2) (3 / 2) (1 / 2)) (Vec4 1 1 1 1) (Vec4 0 0 0 1)
     (Vec4 1 2 4 0) = Some 2"
  by (simp add: GridFilterBase_hashPoint_def PointXYZ_def conv_defs)

lemma rebuilt_binned:
  "addPointsToGrid2 two_cell_cloud rebuilt_ready
    = Some (rebuilt_ready\<lparr>grid2 := [(1, sums_A), (2, sums_B)]\<rparr>)"
proof -
  have a: "addPointToGrid2 (PointXYZ (3 / 2) (1 / 2) (1 / 2)) rebuilt_ready
      = Some (rebuilt_ready\<lparr>grid2 := [(1, sums_A)]\<rparr>)"
    unfolding addPointToGrid2_def rebuilt_ready_def
    by (simp add: rebuilt_hash_A)
      (simp add: grid2_at_def CentroidPoint_add_def CentroidPoint_init_def all_fields_def
        PointXYZ_def sums_A_def)
  have b: "addPointToGrid2 (PointXYZ (1 / 2) (3 / 2) (1 / 2))
        (rebuilt_ready\<lparr>grid2 := [(1, sums_A)]\<rparr>)
      = Some (rebuilt_ready\<lparr>grid2 := [(1, sums_A), (2, sums_B)]\<rparr>)"
    unfolding addPointToGrid2_def rebuilt_ready_def
    by (simp add: rebuilt_hash_B)
      (simp add: grid2_at_def CentroidPoint_add_def CentroidPoint_init_def all_fields_def
        PointXYZ_def sums_B_def)
  show ?thesis using a b by (simp add: two_cell_cloud_def)
qed

lemma rebuilt_emitted:
  "filterGridAll2 [(1, sums_A), (2, sums_B)] (rebuilt_ready\<lparr>grid2 := [(1, sums_A), (2, sums_B)]\<rparr>)
    = Some (two_cell_cloud, rebuilt_grid)"
  unfolding rebuilt_grid_def rebuilt_ready_def
  by (simp add: filterGrid2_def Let_def sums_A_def sums_B_def CentroidPoint_get_def
      point_of_fields_def two_cell_cloud_def PointXYZ_def PointT_default_def)

lemma stale_applyFilter2:
  "applyFilter2 two_cell_settings two_cell_env two_cell_cloud stale_grid
    = Some (Output two_cell_cloud, [], rebuilt_grid)"
proof -
  have ne: "two_cell_cloud \<noteq> []" by (simp add: two_cell_cloud_def)
  show ?thesis
    unfolding applyFilter2_def using ne
    by (simp add: stale_setUp2 rebuilt_binned rebuilt_emitted del: filterGridAll2.simps)
qed

lemma filter_rebuilds_grid_example:
  "applyFilter2 two_cell_settings two_cell_env two_cell_cloud stale_grid
      = Some (Output two_cell_cloud, [], rebuilt_grid)
   \<and> applyFilter2 two_cell_settings two_cell_env two_cell_cloud rebuilt_grid
      = Some (Output two_cell_cloud, [], rebuilt_grid)
   \<and> applyFilter2 two_cell_settings two_cell_env two_cell_cloud
        (stale_grid\<lparr>grid2 := [], num_voxels2 := 0\<rparr>)
      = Some (Output two_cell_cloud, [], rebuilt_grid)
   \<and> map fst (grid2 stale_grid) = [0] \<and> map fst (grid2 rebuilt_grid) = [1, 2]"
  using filter_rebuilds_grid [OF stale_applyFilter2, where g = "[]" and n = 0] stale_applyFilter2
  by (simp add: two_cell_cloud_def stale_grid_def rebuilt_grid_def)

text \<open>
  The \<^verbatim>\<open>setUp\<close> of the revision that reads the filter through \<^verbatim>\<open>getDerived()\<close> resets the
  counter only; it leaves the entries of the grid in place.
\<close>

lemma setUp_keeps_grid:
  assumes "setUp gf env st = Some (r, w, st1)"
  shows "grid st1 = grid st \<and> num_voxels st1 = 0"
  using assms
  unfolding setUp_def Let_def
  by (auto simp add: bind_eq_Some_conv split: if_splits option.splits)

end
